theory Spec2Isabelle
  imports Complex_Main
begin

section \<open>The flow editor of the dashboard: data model\<close>

text \<open>
  The development embeds \<^verbatim>\<open>src/app/(protected)/dashboard/flow.tsx\<close>: the shape
  registry \<^verbatim>\<open>getDefaultHandlesForShape\<close>, the handlers of the \<^verbatim>\<open>Flow\<close> component
  (\<^verbatim>\<open>createNewNode\<close>, \<^verbatim>\<open>onConnect\<close>, \<^verbatim>\<open>handleDeleteNode\<close>, \<^verbatim>\<open>handleChangeNodeType\<close>,
  \<^verbatim>\<open>handleUpdateNodeData\<close>, \<^verbatim>\<open>undo\<close>, \<^verbatim>\<open>redo\<close>, \<^verbatim>\<open>clearAll\<close>) and its two effects (the load
  on mount, and the save with the history update that runs after every change of
  \<^verbatim>\<open>nodes\<close> or \<^verbatim>\<open>edges\<close>).

  JavaScript strings are modelled as \<^typ>\<open>string\<close>, a character being a code unit below
  256 (the texts the editor itself produces are ASCII), and the empty string being
  the only falsy one. Numbers that are only stored and passed on (coordinates, stroke
  widths) are \<^typ>\<open>real\<close>; counters are \<^typ>\<open>nat\<close>, and the number read back from a label
  is a double with an integral value, an infinity or \<^verbatim>\<open>NaN\<close>. The component's React
  state is one record that every handler takes and returns. \<^verbatim>\<open>nanoid()\<close> is not under \<^verbatim>\<open>src/\<close>: the identifier a call returns is
  an argument of the function that makes the call.
\<close>

datatype HandleType = Source | Target

datatype Position = Left | Top | Right | Bottom

text \<open>An entry of \<^verbatim>\<open>NodeData['customHandles']\<close>; the CSS style is a list of
  property/value pairs.\<close>

record Handle =
  handle_type :: HandleType
  handle_position :: Position
  handle_id :: string
  handle_style :: "(string \<times> string) list"

record XYPosition =
  pos_x :: real
  pos_y :: real

record NodeData =
  label :: string
  nodeCategory :: string
  color :: string
  content :: string
  customHandles :: "Handle list"

text \<open>A React Flow node with the fields the editor writes and saves.\<close>

record Node =
  node_id :: string
  node_position :: XYPosition
  node_type :: string
  data :: NodeData

record EdgeStyle =
  stroke :: string
  strokeWidth :: real

text \<open>A React Flow connection: each end may be \<^verbatim>\<open>null\<close>.\<close>

record Connection =
  conn_source :: "string option"
  conn_target :: "string option"
  conn_sourceHandle :: "string option"
  conn_targetHandle :: "string option"

record Edge =
  edge_id :: string
  source :: "string option"
  target :: "string option"
  sourceHandle :: "string option"
  targetHandle :: "string option"
  edge_type :: string
  animated :: bool
  edge_style :: EdgeStyle

text \<open>
  \<^verbatim>\<open>JSON.stringify\<close> walks the own keys of an object in their order of insertion,
  and the save effect compares its texts. An object that is compared as a text
  therefore comes with its keys: a key that the editor reads or writes, by its name,
  or any other key (never one of those names) with the text of its value.
\<close>

datatype Member = Key string | OtherKey string string

text \<open>A node and an edge as objects whose text is taken: the fields and the keys of
  the object, and for a node the keys of its \<^verbatim>\<open>data\<close>.\<close>

record NodeObject = Node +
  node_keys :: "Member list"
  data_keys :: "Member list"

record EdgeObject = Edge +
  edge_keys :: "Member list"

text \<open>\<^verbatim>\<open>interface FlowState\<close>: the live graph, whose nodes and edges are read field
  by field only, and an entry of the history, whose arrays are also compared as
  texts.\<close>

record ('n, 'e) FlowState =
  nodes :: "'n list"
  edges :: "'e list"

type_synonym HistoryEntry = "(NodeObject, EdgeObject) FlowState"

subsection \<open>The persisted slot\<close>

text \<open>
  What \<^verbatim>\<open>JSON.parse\<close> returns for a saved flow. The loader guards the shape tags, the
  handles, the colour, the content and the edges' visual fields, so these may be absent
  (\<open>None\<close>) or hold any text; the identifier, the position and the label of a stored
  node and the four ends of a stored edge (a text or \<^verbatim>\<open>null\<close>) are taken as present and
  well typed, as the persisted layout has them. Every stored object comes with its keys in the
  order of the text, which may be another order than the one the editor writes and may
  hold other keys; the positions, the handles and the styles inside are taken with the
  keys of their types, in the order the editor writes. A parsed value of another
  layout (nodes that are no array, a node that is no object) is outside the model.
\<close>

record StoredData =
  sd_label :: string
  sd_nodeCategory :: "string option"
  sd_color :: "string option"
  sd_content :: "string option"
  sd_customHandles :: "Handle list option"
  sd_keys :: "Member list"

record StoredNode =
  sn_id :: string
  sn_position :: XYPosition
  sn_type :: "string option"
  sn_data :: StoredData
  sn_keys :: "Member list"

record StoredStyle =
  ss_stroke :: "string option"
  ss_strokeWidth :: "real option"

record StoredEdge =
  se_id :: string
  se_source :: "string option"
  se_target :: "string option"
  se_sourceHandle :: "string option"
  se_targetHandle :: "string option"
  se_type :: "string option"
  se_animated :: "bool option"
  se_style :: "StoredStyle option"
  se_keys :: "Member list"

record StoredFlow =
  sf_nodes :: "StoredNode list option"
  sf_edges :: "StoredEdge list option"

text \<open>
  The text under the key \<^verbatim>\<open>'flow'\<close> of \<^verbatim>\<open>localStorage\<close>, by what the loader does with
  it: the empty text (falsy, so never parsed), a non-empty text on which \<^verbatim>\<open>JSON.parse\<close>
  throws, or a text that \<^verbatim>\<open>JSON.parse\<close> turns into a stored flow;
  \<^verbatim>\<open>JSON.stringify\<close> of a flow writes a text of the last kind.
\<close>

datatype SavedText = EmptyText | Unparsable | Parsable StoredFlow

subsection \<open>The state of the component\<close>

record Flow = "(Node, Edge) FlowState" +
  selectedNode :: "Node option"
  history :: "HistoryEntry list"
  currentStep :: nat
  isInitialLoadDone :: bool
  localStorage :: "SavedText option"

text \<open>The state of the first render: the initial values of the \<^verbatim>\<open>useState\<close> and \<^verbatim>\<open>useRef\<close>
  calls, over a given content of the slot.\<close>

definition initialFlow :: "SavedText option \<Rightarrow> Flow" where
  "initialFlow slot =
     \<lparr>nodes = [], edges = [], selectedNode = None,
      history = [\<lparr>nodes = [], edges = []\<rparr>], currentStep = 0,
      isInitialLoadDone = False, localStorage = slot\<rparr>"

section \<open>Constants and the shape registry\<close>

definition COLORS :: "string list" where
  "COLORS = [''#2563eb'', ''#16a34a'', ''#dc2626'', ''#ca8a04'',
             ''#9333ea'', ''#0891b2'', ''#ea580c'', ''#be185d'']"

definition AVAILABLE_SHAPES :: "string list" where
  "AVAILABLE_SHAPES = [''rectangle'', ''circle'']"

text \<open>\<^verbatim>\<open>getDefaultHandlesForShape(shapeType, nodeId)\<close>; \<open>nanoid\<close> is the identifier that
  \<^verbatim>\<open>nanoid()\<close> returns when \<^verbatim>\<open>nodeId\<close> is empty.\<close>

definition getDefaultHandlesForShape :: "string \<Rightarrow> string \<Rightarrow> string \<Rightarrow> Handle list" where
  "getDefaultHandlesForShape nanoid shapeType nodeId =
     (let baseId = (if nodeId \<noteq> [] then nodeId else nanoid) in
      if shapeType = ''rectangle'' then
        [\<lparr>handle_type = Target, handle_position = Left,
          handle_id = baseId @ ''-left-target'', handle_style = [(''top'', ''50%'')]\<rparr>,
         \<lparr>handle_type = Source, handle_position = Right,
          handle_id = baseId @ ''-right-source'', handle_style = [(''top'', ''50%'')]\<rparr>]
      else if shapeType = ''circle'' then
        [\<lparr>handle_type = Target, handle_position = Top,
          handle_id = baseId @ ''-top-target'', handle_style = [(''left'', ''50%'')]\<rparr>,
         \<lparr>handle_type = Source, handle_position = Bottom,
          handle_id = baseId @ ''-bottom-source'', handle_style = [(''left'', ''50%'')]\<rparr>,
         \<lparr>handle_type = Target, handle_position = Left,
          handle_id = baseId @ ''-left-target'', handle_style = [(''top'', ''50%'')]\<rparr>,
         \<lparr>handle_type = Source, handle_position = Right,
          handle_id = baseId @ ''-right-source'', handle_style = [(''top'', ''50%'')]\<rparr>]
      else [])"

text \<open>
  The repository holds a second copy of the editor (the component that follows the
  post types in \<^verbatim>\<open>src/types/post.ts\<close>), whose registry gives a circle two handles on
  each side. It is embedded here only to tell the two layouts apart.
\<close>

definition getDefaultHandlesForShape_copy :: "string \<Rightarrow> string \<Rightarrow> string \<Rightarrow> Handle list" where
  "getDefaultHandlesForShape_copy nanoid shapeType nodeId =
     (let baseId = (if nodeId \<noteq> [] then nodeId else nanoid) in
      if shapeType = ''rectangle'' then
        [\<lparr>handle_type = Target, handle_position = Left,
          handle_id = baseId @ ''-left-target'', handle_style = [(''top'', ''50%'')]\<rparr>,
         \<lparr>handle_type = Source, handle_position = Right,
          handle_id = baseId @ ''-right-source'', handle_style = [(''top'', ''50%'')]\<rparr>]
      else if shapeType = ''circle'' then
        [\<lparr>handle_type = Target, handle_position = Top,
          handle_id = baseId @ ''-top-left'', handle_style = [(''left'', ''25%'')]\<rparr>,
         \<lparr>handle_type = Target, handle_position = Top,
          handle_id = baseId @ ''-top-right'', handle_style = [(''left'', ''75%'')]\<rparr>,
         \<lparr>handle_type = Source, handle_position = Bottom,
          handle_id = baseId @ ''-bottom-left'', handle_style = [(''left'', ''25%'')]\<rparr>,
         \<lparr>handle_type = Source, handle_position = Bottom,
          handle_id = baseId @ ''-bottom-right'', handle_style = [(''left'', ''75%'')]\<rparr>,
         \<lparr>handle_type = Target, handle_position = Left,
          handle_id = baseId @ ''-left-top'', handle_style = [(''top'', ''25%'')]\<rparr>,
         \<lparr>handle_type = Target, handle_position = Left,
          handle_id = baseId @ ''-left-bottom'', handle_style = [(''top'', ''75%'')]\<rparr>,
         \<lparr>handle_type = Source, handle_position = Right,
          handle_id = baseId @ ''-right-top'', handle_style = [(''top'', ''25%'')]\<rparr>,
         \<lparr>handle_type = Source, handle_position = Right,
          handle_id = baseId @ ''-right-bottom'', handle_style = [(''top'', ''75%'')]\<rparr>]
      else [])"

text \<open>The suffixes that the template strings of the registry put after the node's
  identifier, shape by shape.\<close>

definition handleSuffixes :: "string \<Rightarrow> string list" where
  "handleSuffixes shapeType =
     (if shapeType = ''rectangle'' then [''-left-target'', ''-right-source'']
      else if shapeType = ''circle'' then
        [''-top-target'', ''-bottom-source'', ''-left-target'', ''-right-source'']
      else [])"

text \<open>The role and the side of a handle.\<close>

definition handleRole :: "Handle \<Rightarrow> HandleType \<times> Position" where
  "handleRole h = (handle_type h, handle_position h)"

section \<open>Texts and numbers of the labels\<close>

text \<open>\<^verbatim>\<open>toUpperCase\<close> on one ASCII character, as the names of the shapes have them.\<close>

definition toUpperCase :: "char \<Rightarrow> char" where
  "toUpperCase c =
     (case map_of (zip ''abcdefghijklmnopqrstuvwxyz'' ''ABCDEFGHIJKLMNOPQRSTUVWXYZ'') c of
        Some u \<Rightarrow> u
      | None \<Rightarrow> c)"

text \<open>\<^verbatim>\<open>s.charAt(0).toUpperCase() + s.slice(1)\<close>.\<close>

definition capitalize :: "string \<Rightarrow> string" where
  "capitalize s = (case s of [] \<Rightarrow> [] | c # cs \<Rightarrow> toUpperCase c # cs)"

text \<open>The decimal digits of a natural number.\<close>

fun natToString :: "nat \<Rightarrow> string" where
  "natToString n =
     (if n < 10 then [''0123456789'' ! n]
      else natToString (n div 10) @ [''0123456789'' ! (n mod 10)])"

declare natToString.simps [simp del]

text \<open>\<^verbatim>\<open>s.split(sep)\<close> for a separator of one character: never the empty array.\<close>

fun splitBy :: "char \<Rightarrow> string \<Rightarrow> string list" where
  "splitBy sep [] = [[]]"
| "splitBy sep (c # cs) =
     (if c = sep then [] # splitBy sep cs
      else (case splitBy sep cs of [] \<Rightarrow> [[c]] | p # ps \<Rightarrow> (c # p) # ps))"

text \<open>
  The numbers that \<^verbatim>\<open>parseInt\<close> returns: \<^verbatim>\<open>NaN\<close>, a double whose value is an integer
  (\<^verbatim>\<open>-0\<close> is read as \<open>0\<close>, and prints the same), or an infinity.
\<close>

datatype Number = NaN | Num int | PosInfinity | NegInfinity

text \<open>
  The double for a natural number: the nearest number with 53 significant bits, the
  one with the even significand on a tie; from \<open>2 ^ 1024 - 2 ^ 970\<close> on there is none
  and the result is infinite (\<open>None\<close>). Up to \<open>2 ^ 53\<close> every natural number is its own
  double.
\<close>

fun bitLength :: "nat \<Rightarrow> nat" where
  "bitLength n = (if n = 0 then 0 else Suc (bitLength (n div 2)))"

declare bitLength.simps [simp del]

definition roundToDouble :: "nat \<Rightarrow> nat option" where
  "roundToDouble v =
     (let e = bitLength v - 53;
          q = v div 2 ^ e;
          r = v mod 2 ^ e;
          q' = (if 2 * r > 2 ^ e \<or> (2 * r = 2 ^ e \<and> odd q) then q + 1 else q);
          d = q' * 2 ^ e
      in if d < 2 ^ 1024 then Some d else None)"

text \<open>
  \<^verbatim>\<open>parseInt(s)\<close> with no radix: leading white space is skipped (among the code units
  below 256 these are the tab, the line feed, the vertical tab, the form feed, the
  carriage return, the space and the no-break space), one sign is read, the prefix
  \<^verbatim>\<open>0x\<close> selects radix 16, and the longest run of digits that follows is the number;
  with no digit there the result is \<^verbatim>\<open>NaN\<close>. The result is the double for the number
  read. (For more than 20 decimal digits the language lets an implementation round
  the number read after the 20th digit; the model reads them all.)
\<close>

definition isWhiteSpace :: "char \<Rightarrow> bool" where
  "isWhiteSpace c =
     (c \<in> set [CHR 0x09, CHR 0x0A, CHR 0x0B, CHR 0x0C, CHR 0x0D, CHR 0x20, CHR 0xA0])"

definition isDigit :: "char \<Rightarrow> bool" where
  "isDigit c = (c \<in> set ''0123456789'')"

definition digitValue :: "char \<Rightarrow> nat option" where
  "digitValue c =
     map_of (zip ''0123456789abcdefABCDEF''
       [0, 1, 2, 3, 4, 5, 6, 7, 8, 9, 10, 11, 12, 13, 14, 15, 10, 11, 12, 13, 14, 15]) c"

definition radixDigit :: "nat \<Rightarrow> char \<Rightarrow> nat option" where
  "radixDigit radix c =
     (case digitValue c of
        Some d \<Rightarrow> if d < radix then Some d else None
      | None \<Rightarrow> None)"

fun digitsValue :: "nat \<Rightarrow> nat \<Rightarrow> string \<Rightarrow> nat" where
  "digitsValue radix acc [] = acc"
| "digitsValue radix acc (c # cs) =
     (case radixDigit radix c of
        Some d \<Rightarrow> digitsValue radix (acc * radix + d) cs
      | None \<Rightarrow> acc)"

definition hasHexPrefix :: "string \<Rightarrow> bool" where
  "hasHexPrefix s = (take 2 s = ''0x'' \<or> take 2 s = ''0X'')"

text \<open>The double of a sign and a magnitude.\<close>

definition toNumber :: "bool \<Rightarrow> nat \<Rightarrow> Number" where
  "toNumber negative v =
     (case roundToDouble v of
        Some d \<Rightarrow> Num (if negative then - int d else int d)
      | None \<Rightarrow> if negative then NegInfinity else PosInfinity)"

definition parseInt :: "string \<Rightarrow> Number" where
  "parseInt inputString =
     (let s = dropWhile isWhiteSpace inputString;
          negative = (case s of [] \<Rightarrow> False | c # cs \<Rightarrow> c = CHR ''-'');
          s1 = (case s of
                  [] \<Rightarrow> []
                | c # cs \<Rightarrow> if c = CHR ''+'' \<or> c = CHR ''-'' then cs else c # cs);
          radix = (if hasHexPrefix s1 then 16 else 10);
          s2 = (if hasHexPrefix s1 then drop 2 s1 else s1)
      in case s2 of
           [] \<Rightarrow> NaN
         | c # cs \<Rightarrow>
             (case radixDigit radix c of
                None \<Rightarrow> NaN
              | Some d \<Rightarrow> toNumber negative (digitsValue radix 0 s2)))"

text \<open>
  The text of a number inside a template string. For a double \<open>x\<close> with a positive
  integral value it has the fewest significant digits that still read back as \<open>x\<close>:
  with \<open>k\<close> digits the candidates are the two multiples of the power of ten next to
  \<open>x\<close>, of which the one that reads back as \<open>x\<close> is taken, the nearer one if both do,
  the one with the even last digit if they are equally near. Up to \<open>2 ^ 53\<close> these are
  all the digits of \<open>x\<close>.
\<close>

definition candidate :: "nat \<Rightarrow> nat \<Rightarrow> nat option" where
  "candidate x k =
     (let p = 10 ^ (length (natToString x) - k);
          lo = (x div p) * p;
          hi = lo + p;
          okLo = (roundToDouble lo = Some x);
          okHi = (roundToDouble hi = Some x)
      in if okLo \<and> okHi then
           Some (if x - lo < hi - x then lo
                 else if hi - x < x - lo then hi
                 else if even (lo div p) then lo else hi)
         else if okLo then Some lo
         else if okHi then Some hi
         else None)"

fun firstCandidate :: "nat \<Rightarrow> nat list \<Rightarrow> nat" where
  "firstCandidate x [] = x"
| "firstCandidate x (k # ks) =
     (case candidate x k of Some v \<Rightarrow> v | None \<Rightarrow> firstCandidate x ks)"

definition shortest :: "nat \<Rightarrow> nat" where
  "shortest x = firstCandidate x [1, 2, 3, 4, 5, 6, 7, 8, 9, 10, 11, 12, 13, 14, 15, 16, 17]"

text \<open>From 22 digits on the text has the form \<^verbatim>\<open>d.ddde+n\<close>, without the trailing
  zeros of the digits.\<close>

definition exponential :: "nat \<Rightarrow> string" where
  "exponential v =
     (let ds = natToString v;
          s = rev (dropWhile (\<lambda>c. c = CHR ''0'') (rev ds))
      in (case s of
            [] \<Rightarrow> []
          | d # rest \<Rightarrow> if rest = [] then [d] else d # CHR ''.'' # rest)
         @ ''e+'' @ natToString (length ds - 1))"

definition doubleToString :: "nat \<Rightarrow> string" where
  "doubleToString x =
     (if x \<le> 2 ^ 53 then natToString x
      else (let v = shortest x
            in if length (natToString v) \<le> 21 then natToString v else exponential v))"

definition numberToString :: "Number \<Rightarrow> string" where
  "numberToString x =
     (case x of
        NaN \<Rightarrow> ''NaN''
      | PosInfinity \<Rightarrow> ''Infinity''
      | NegInfinity \<Rightarrow> ''-Infinity''
      | Num k \<Rightarrow>
          if k < 0 then CHR ''-'' # doubleToString (nat (- k)) else doubleToString (nat k))"

section \<open>The handlers of the component\<close>

text \<open>
  \<^verbatim>\<open>createNewNode(nodeCat, position)\<close>. \<open>nanoid1\<close> is the identifier of the new node,
  \<open>nanoid2\<close> the one a second call would return, and \<open>r\<close> is
  \<^verbatim>\<open>Math.floor(Math.random() * COLORS.length)\<close>, which is an index of the palette; the
  model reduces it modulo the length of the palette, so that every \<open>r\<close> is one.
\<close>

definition createNewNode ::
    "string \<Rightarrow> string \<Rightarrow> nat \<Rightarrow> string \<Rightarrow> XYPosition \<Rightarrow> Flow \<Rightarrow> Flow" where
  "createNewNode nanoid1 nanoid2 r nodeCat position st =
     (let customHandlesConfig = getDefaultHandlesForShape nanoid2 nodeCat nanoid1;
          count = length (filter (\<lambda>n. nodeCategory (data n) = nodeCat) (nodes st)) + 1;
          newNode =
            \<lparr>node_id = nanoid1, node_position = position, node_type = nodeCat,
             data = \<lparr>label = capitalize nodeCat @ '' '' @ natToString count,
                     nodeCategory = nodeCat,
                     color = COLORS ! (r mod length COLORS),
                     content = [],
                     customHandles = customHandlesConfig\<rparr>\<rparr>
      in st\<lparr>nodes := nodes st @ [newNode]\<rparr>)"

text \<open>\<^verbatim>\<open>onConnect(params)\<close>. \<^verbatim>\<open>addEdge\<close> belongs to the rendering library and is an
  argument; \<open>nanoid\<close> is the identifier of the new edge.\<close>

definition onConnect ::
    "(Edge \<Rightarrow> Edge list \<Rightarrow> Edge list) \<Rightarrow> string \<Rightarrow> Connection \<Rightarrow> Flow \<Rightarrow> Flow" where
  "onConnect addEdge nanoid params st =
     (let newEdge =
            \<lparr>edge_id = nanoid,
             source = conn_source params, target = conn_target params,
             sourceHandle = conn_sourceHandle params,
             targetHandle = conn_targetHandle params,
             edge_type = ''bezier'', animated = True,
             edge_style = \<lparr>stroke = ''#2563eb'', strokeWidth = 2\<rparr>\<rparr>
      in st\<lparr>edges := addEdge newEdge (edges st)\<rparr>)"

text \<open>Modelled from the spec: \<^verbatim>\<open>addEdge\<close> of the rendering library, which is not under
  \<^verbatim>\<open>src/\<close>; the spec has a connection appended to the edge collection, parallel edges
  included.\<close>

definition addEdge_appending :: "Edge \<Rightarrow> Edge list \<Rightarrow> Edge list" where
  "addEdge_appending edge eds = eds @ [edge]"

text \<open>\<^verbatim>\<open>handleDeleteNode\<close>, for the \<^verbatim>\<open>nodeId\<close> of the event's detail.\<close>

definition handleDeleteNode :: "string \<Rightarrow> Flow \<Rightarrow> Flow" where
  "handleDeleteNode nodeId st =
     (if nodeId \<noteq> [] then
        st\<lparr>nodes := filter (\<lambda>node. node_id node \<noteq> nodeId) (nodes st),
           edges := filter (\<lambda>edge. source edge \<noteq> Some nodeId \<and> target edge \<noteq> Some nodeId)
                      (edges st),
           selectedNode :=
             (case selectedNode st of
                Some sel \<Rightarrow> if node_id sel = nodeId then None else Some sel
              | None \<Rightarrow> None)\<rparr>
      else st)"

text \<open>The node that the callback of \<^verbatim>\<open>nds.map\<close> in \<^verbatim>\<open>handleChangeNodeType\<close> returns for a
  node \<open>n\<close> whose identifier is \<^verbatim>\<open>nodeId\<close>.\<close>

definition changedNode :: "string \<Rightarrow> string \<Rightarrow> string \<Rightarrow> Node list \<Rightarrow> Node \<Rightarrow> Node" where
  "changedNode nanoid nodeId newType nds n =
     (let newHandles = getDefaultHandlesForShape nanoid newType (node_id n);
          currentCountForNewType =
            length (filter (\<lambda>node. node_id node \<noteq> nodeId \<and> nodeCategory (data node) = newType) nds);
          oldLabelParts = splitBy (CHR '' '') (label (data n));
          oldNumber = parseInt (last oldLabelParts);
          newLabelNumber =
            (case oldNumber of
               NaN \<Rightarrow> Num (int currentCountForNewType + 1)
             | _ \<Rightarrow> oldNumber)
      in n\<lparr>node_type := newType,
           data := (data n)\<lparr>label := capitalize newType @ '' '' @ numberToString newLabelNumber,
                            nodeCategory := newType,
                            customHandles := newHandles\<rparr>\<rparr>)"

definition handleChangeNodeType :: "string \<Rightarrow> string \<Rightarrow> string \<Rightarrow> Flow \<Rightarrow> Flow" where
  "handleChangeNodeType nanoid nodeId newType st =
     (if nodeId \<noteq> [] \<and> newType \<noteq> [] then
        st\<lparr>nodes := map (\<lambda>n. if node_id n = nodeId
                               then changedNode nanoid nodeId newType (nodes st) n
                               else n) (nodes st)\<rparr>
      else st)"

text \<open>A \<^verbatim>\<open>Partial<NodeData>\<close>: the fields that an update carries.\<close>

record PartialNodeData =
  new_label :: "string option"
  new_nodeCategory :: "string option"
  new_color :: "string option"
  new_content :: "string option"
  new_customHandles :: "Handle list option"

text \<open>\<^verbatim>\<open>{ ...n.data, ...newData }\<close>.\<close>

definition mergeData :: "NodeData \<Rightarrow> PartialNodeData \<Rightarrow> NodeData" where
  "mergeData d newData =
     \<lparr>label = (case new_label newData of Some v \<Rightarrow> v | None \<Rightarrow> label d),
      nodeCategory = (case new_nodeCategory newData of Some v \<Rightarrow> v | None \<Rightarrow> nodeCategory d),
      color = (case new_color newData of Some v \<Rightarrow> v | None \<Rightarrow> color d),
      content = (case new_content newData of Some v \<Rightarrow> v | None \<Rightarrow> content d),
      customHandles =
        (case new_customHandles newData of Some v \<Rightarrow> v | None \<Rightarrow> customHandles d)\<rparr>"

definition handleUpdateNodeData :: "string \<Rightarrow> PartialNodeData \<Rightarrow> Flow \<Rightarrow> Flow" where
  "handleUpdateNodeData nodeId newData st =
     (if nodeId \<noteq> [] then
        st\<lparr>nodes := map (\<lambda>n. if node_id n = nodeId
                               then n\<lparr>data := mergeData (data n) newData\<rparr>
                               else n) (nodes st)\<rparr>
      else st)"

text \<open>
  \<^verbatim>\<open>undo\<close> and \<^verbatim>\<open>redo\<close>. The copies \<^verbatim>\<open>{...n, data: {...n.data}}\<close> and \<^verbatim>\<open>{...e}\<close> are
  new objects with the fields (and the keys) of the entry; the live graph is read
  field by field only, so the state keeps the fields. Reading \<^verbatim>\<open>history[newStep]\<close>
  past the end gives \<^verbatim>\<open>undefined\<close>, and the handler then throws before it has set
  anything: the state stays as it is.
\<close>

definition nodeFields :: "'a Node_scheme \<Rightarrow> Node" where
  "nodeFields n =
     \<lparr>node_id = node_id n, node_position = node_position n, node_type = node_type n,
      data = data n\<rparr>"

definition edgeFields :: "'a Edge_scheme \<Rightarrow> Edge" where
  "edgeFields e =
     \<lparr>edge_id = edge_id e, source = source e, target = target e,
      sourceHandle = sourceHandle e, targetHandle = targetHandle e,
      edge_type = edge_type e, animated = animated e, edge_style = edge_style e\<rparr>"

definition undo :: "Flow \<Rightarrow> Flow" where
  "undo st =
     (if currentStep st > 0 then
        (let newStep = currentStep st - 1 in
         if newStep < length (history st) then
           (let prevState = history st ! newStep in
            st\<lparr>nodes := map nodeFields (nodes prevState),
               edges := map edgeFields (edges prevState),
               currentStep := newStep\<rparr>)
         else st)
      else st)"

definition redo :: "Flow \<Rightarrow> Flow" where
  "redo st =
     (if int (currentStep st) < int (length (history st)) - 1 then
        (let newStep = currentStep st + 1;
             nextState = history st ! newStep in
         st\<lparr>nodes := map nodeFields (nodes nextState),
            edges := map edgeFields (edges nextState),
            currentStep := newStep\<rparr>)
      else st)"

definition clearAll :: "Flow \<Rightarrow> Flow" where
  "clearAll st = st\<lparr>nodes := [], edges := []\<rparr>"

definition onNodeClick :: "Node \<Rightarrow> Flow \<Rightarrow> Flow" where
  "onNodeClick node st = st\<lparr>selectedNode := Some node\<rparr>"

definition onPaneClick :: "Flow \<Rightarrow> Flow" where
  "onPaneClick st = st\<lparr>selectedNode := None\<rparr>"

section \<open>The two effects\<close>

text \<open>\<^verbatim>\<open>AVAILABLE_SHAPES.includes(v)\<close> for a value that may be absent.\<close>

definition includes_shape :: "string option \<Rightarrow> bool" where
  "includes_shape v = (case v of Some s \<Rightarrow> s \<in> set AVAILABLE_SHAPES | None \<Rightarrow> False)"

text \<open>\<^verbatim>\<open>v || fallback\<close> for a text that may be absent.\<close>

definition orElse :: "string option \<Rightarrow> string \<Rightarrow> string" where
  "orElse v fallback = (case v of Some s \<Rightarrow> if s \<noteq> [] then s else fallback | None \<Rightarrow> fallback)"

text \<open>The keys of \<^verbatim>\<open>{...object, k: v}\<close>: a key that the object has stays in its place,
  a new one comes last.\<close>

definition withKey :: "string \<Rightarrow> Member list \<Rightarrow> Member list" where
  "withKey k ms = (if Key k \<in> set ms then ms else ms @ [Key k])"

text \<open>The callback of \<^verbatim>\<open>(parsedFlow.nodes || []).map\<close> in the load effect.\<close>

definition loadNode :: "string \<Rightarrow> StoredNode \<Rightarrow> NodeObject" where
  "loadNode nanoid node =
     (let nodeCategory =
            (if includes_shape (sd_nodeCategory (sn_data node))
             then the (sd_nodeCategory (sn_data node))
             else if includes_shape (sn_type node) then the (sn_type node)
             else ''rectangle'')
      in \<lparr>node_id = sn_id node, node_position = sn_position node,
          node_type = nodeCategory,
          data = \<lparr>label = sd_label (sn_data node),
                  nodeCategory = nodeCategory,
                  color = orElse (sd_color (sn_data node)) (COLORS ! 0),
                  content = orElse (sd_content (sn_data node)) [],
                  customHandles =
                    (case sd_customHandles (sn_data node) of
                       Some hs \<Rightarrow>
                         if length hs > 0 then hs
                         else getDefaultHandlesForShape nanoid nodeCategory (sn_id node)
                     | None \<Rightarrow> getDefaultHandlesForShape nanoid nodeCategory (sn_id node))\<rparr>,
          node_keys = withKey ''data'' (withKey ''type'' (sn_keys node)),
          data_keys =
            withKey ''content'' (withKey ''color'' (withKey ''customHandles''
              (withKey ''nodeCategory'' (sd_keys (sn_data node)))))\<rparr>)"

text \<open>The callback of \<^verbatim>\<open>(parsedFlow.edges || []).map\<close>.\<close>

definition loadEdge :: "StoredEdge \<Rightarrow> EdgeObject" where
  "loadEdge edge =
     \<lparr>edge_id = se_id edge,
      source = se_source edge, target = se_target edge,
      sourceHandle = se_sourceHandle edge, targetHandle = se_targetHandle edge,
      edge_type = orElse (se_type edge) ''bezier'',
      animated = (case se_animated edge of Some a \<Rightarrow> a | None \<Rightarrow> True),
      edge_style =
        (case se_style edge of
           Some sty \<Rightarrow>
             \<lparr>stroke = orElse (ss_stroke sty) ''#2563eb'',
              strokeWidth =
                (case ss_strokeWidth sty of
                   Some w \<Rightarrow> if w \<noteq> 0 then w else 2
                 | None \<Rightarrow> 2)\<rparr>
         | None \<Rightarrow> \<lparr>stroke = ''#2563eb'', strokeWidth = 2\<rparr>),
      edge_keys = withKey ''style'' (withKey ''animated'' (withKey ''type'' (se_keys edge)))\<rparr>"

text \<open>The end of the load effect, after the \<^verbatim>\<open>try\<close>: the loaded objects become the
  live graph and the only entry of the history.\<close>

definition startFrom :: "NodeObject list \<Rightarrow> EdgeObject list \<Rightarrow> Flow \<Rightarrow> Flow" where
  "startFrom initialNodes initialEdges st =
     st\<lparr>nodes := map nodeFields initialNodes, edges := map edgeFields initialEdges,
        history := [\<lparr>nodes = initialNodes, edges = initialEdges\<rparr>],
        currentStep := 0, isInitialLoadDone := True\<rparr>"

text \<open>
  The effect that runs once on mount. \<open>nanoid k\<close> is the identifier that \<^verbatim>\<open>nanoid()\<close>
  returns for the \<open>k\<close>-th stored node, should its handles need one. The \<^verbatim>\<open>catch\<close> logs
  the error, removes the slot and goes on with the empty arrays.
\<close>

definition loadEffect :: "(nat \<Rightarrow> string) \<Rightarrow> Flow \<Rightarrow> Flow" where
  "loadEffect nanoid st =
     (case localStorage st of
        None \<Rightarrow> startFrom [] [] st
      | Some EmptyText \<Rightarrow> startFrom [] [] st
      | Some Unparsable \<Rightarrow> startFrom [] [] (st\<lparr>localStorage := None\<rparr>)
      | Some (Parsable parsedFlow) \<Rightarrow>
          (let storedNodes = (case sf_nodes parsedFlow of Some ns \<Rightarrow> ns | None \<Rightarrow> []);
               storedEdges = (case sf_edges parsedFlow of Some es \<Rightarrow> es | None \<Rightarrow> []);
               initialNodes =
                 map (\<lambda>(k, node). loadNode (nanoid k) node)
                   (zip [0 ..< length storedNodes] storedNodes);
               initialEdges = map loadEdge storedEdges
           in startFrom initialNodes initialEdges st))"

text \<open>What \<^verbatim>\<open>JSON.parse\<close> reads back from the text that \<^verbatim>\<open>JSON.stringify\<close> writes for
  the arrays \<^verbatim>\<open>nodesToSave\<close> and \<^verbatim>\<open>edgesToSave\<close>: every field of the projection is
  present, under the keys of the projection.\<close>

definition storedNode :: "NodeObject \<Rightarrow> StoredNode" where
  "storedNode n =
     \<lparr>sn_id = node_id n, sn_position = node_position n, sn_type = Some (node_type n),
      sn_data = \<lparr>sd_label = label (data n),
                 sd_nodeCategory = Some (nodeCategory (data n)),
                 sd_color = Some (color (data n)),
                 sd_content = Some (content (data n)),
                 sd_customHandles = Some (customHandles (data n)),
                 sd_keys = data_keys n\<rparr>,
      sn_keys = node_keys n\<rparr>"

definition storedEdge :: "EdgeObject \<Rightarrow> StoredEdge" where
  "storedEdge e =
     \<lparr>se_id = edge_id e, se_source = source e, se_target = target e,
      se_sourceHandle = sourceHandle e, se_targetHandle = targetHandle e,
      se_type = Some (edge_type e), se_animated = Some (animated e),
      se_style = Some \<lparr>ss_stroke = Some (stroke (edge_style e)),
                       ss_strokeWidth = Some (strokeWidth (edge_style e))\<rparr>,
      se_keys = edge_keys e\<rparr>"

definition stringify :: "NodeObject list \<Rightarrow> EdgeObject list \<Rightarrow> SavedText" where
  "stringify nodesToSave edgesToSave =
     Parsable \<lparr>sf_nodes = Some (map storedNode nodesToSave),
               sf_edges = Some (map storedEdge edgesToSave)\<rparr>"

text \<open>
  The text of an array of nodes or of edges, as the tree that it denotes: two arrays
  have the same \<^verbatim>\<open>JSON.stringify\<close> text exactly when they have the same tree. An
  object is written key by key, in the order of its keys; a text, a flag, \<^verbatim>\<open>null\<close>, a
  position, a style and a list of handles are written the same way whenever they are
  equal.
\<close>

datatype Json =
    JNull
  | JString string
  | JBool bool
  | JPosition XYPosition
  | JStyle EdgeStyle
  | JHandles "Handle list"
  | JObject "(string \<times> Json) list"
  | JText string

definition JString_or_null :: "string option \<Rightarrow> Json" where
  "JString_or_null v = (case v of Some s \<Rightarrow> JString s | None \<Rightarrow> JNull)"

definition dataMember :: "NodeObject \<Rightarrow> Member \<Rightarrow> (string \<times> Json) list" where
  "dataMember n m =
     (case m of
        OtherKey k t \<Rightarrow> [(k, JText t)]
      | Key k \<Rightarrow>
          if k = ''label'' then [(k, JString (label (data n)))]
          else if k = ''nodeCategory'' then [(k, JString (nodeCategory (data n)))]
          else if k = ''color'' then [(k, JString (color (data n)))]
          else if k = ''content'' then [(k, JString (content (data n)))]
          else if k = ''customHandles'' then [(k, JHandles (customHandles (data n)))]
          else [])"

definition nodeMember :: "NodeObject \<Rightarrow> Member \<Rightarrow> (string \<times> Json) list" where
  "nodeMember n m =
     (case m of
        OtherKey k t \<Rightarrow> [(k, JText t)]
      | Key k \<Rightarrow>
          if k = ''id'' then [(k, JString (node_id n))]
          else if k = ''position'' then [(k, JPosition (node_position n))]
          else if k = ''type'' then [(k, JString (node_type n))]
          else if k = ''data'' then [(k, JObject (concat (map (dataMember n) (data_keys n))))]
          else [])"

definition edgeMember :: "EdgeObject \<Rightarrow> Member \<Rightarrow> (string \<times> Json) list" where
  "edgeMember e m =
     (case m of
        OtherKey k t \<Rightarrow> [(k, JText t)]
      | Key k \<Rightarrow>
          if k = ''id'' then [(k, JString (edge_id e))]
          else if k = ''source'' then [(k, JString_or_null (source e))]
          else if k = ''target'' then [(k, JString_or_null (target e))]
          else if k = ''sourceHandle'' then [(k, JString_or_null (sourceHandle e))]
          else if k = ''targetHandle'' then [(k, JString_or_null (targetHandle e))]
          else if k = ''type'' then [(k, JString (edge_type e))]
          else if k = ''animated'' then [(k, JBool (animated e))]
          else if k = ''style'' then [(k, JStyle (edge_style e))]
          else [])"

definition JSON_stringify_nodes :: "NodeObject list \<Rightarrow> Json list" where
  "JSON_stringify_nodes ns = map (\<lambda>n. JObject (concat (map (nodeMember n) (node_keys n)))) ns"

definition JSON_stringify_edges :: "EdgeObject list \<Rightarrow> Json list" where
  "JSON_stringify_edges es = map (\<lambda>e. JObject (concat (map (edgeMember e) (edge_keys e)))) es"

text \<open>
  The effect that runs after a render in which \<^verbatim>\<open>nodes\<close> or \<^verbatim>\<open>edges\<close> changed: it writes
  the projection of the graph to the slot and records it in the history unless the
  entry at the current step has the same \<^verbatim>\<open>JSON.stringify\<close> texts. The objects of the
  projection have the keys of its two object literals.
\<close>

definition saveEffect :: "Flow \<Rightarrow> Flow" where
  "saveEffect st =
     (if \<not> isInitialLoadDone st then st
      else
        (let nodesToSave =
               map (\<lambda>node.
                      \<lparr>node_id = node_id node, node_position = node_position node,
                       node_type = node_type node,
                       data = \<lparr>label = label (data node),
                               nodeCategory = nodeCategory (data node),
                               color = color (data node),
                               content = content (data node),
                               customHandles = customHandles (data node)\<rparr>,
                       node_keys = [Key ''id'', Key ''position'', Key ''type'', Key ''data''],
                       data_keys = [Key ''label'', Key ''nodeCategory'', Key ''color'',
                                    Key ''content'', Key ''customHandles'']\<rparr>) (nodes st);
             edgesToSave =
               map (\<lambda>edge.
                      \<lparr>edge_id = edge_id edge, source = source edge, target = target edge,
                       sourceHandle = sourceHandle edge, targetHandle = targetHandle edge,
                       edge_type = edge_type edge, animated = animated edge,
                       edge_style = edge_style edge,
                       edge_keys = [Key ''id'', Key ''source'', Key ''target'',
                                    Key ''sourceHandle'', Key ''targetHandle'',
                                    Key ''type'', Key ''animated'', Key ''style'']\<rparr>)
                 (edges st);
             st1 = st\<lparr>localStorage := Some (stringify nodesToSave edgesToSave)\<rparr>;
             newHistoryEntry = \<lparr>nodes = nodesToSave, edges = edgesToSave\<rparr>;
             baseHistory = take (currentStep st + 1) (history st);
             lastSavedEntryInBase =
               (if length baseHistory > 0 then Some (baseHistory ! (length baseHistory - 1))
                else None);
             isDuplicate =
               (case lastSavedEntryInBase of
                  None \<Rightarrow> False
                | Some lastSaved \<Rightarrow>
                    JSON_stringify_nodes (nodes lastSaved) = JSON_stringify_nodes nodesToSave \<and>
                    JSON_stringify_edges (edges lastSaved) = JSON_stringify_edges edgesToSave)
         in if \<not> isDuplicate
            then st1\<lparr>history := baseHistory @ [newHistoryEntry],
                    currentStep := length baseHistory\<rparr>
            else st1))"

text \<open>The snapshot of a state: its live graph.\<close>

definition snapshot :: "Flow \<Rightarrow> (Node, Edge) FlowState" where
  "snapshot st = \<lparr>nodes = nodes st, edges = edges st\<rparr>"

text \<open>The graph that \<^verbatim>\<open>undo\<close> and \<^verbatim>\<open>redo\<close> restore from an entry of the history.\<close>

definition restored :: "HistoryEntry \<Rightarrow> (Node, Edge) FlowState" where
  "restored h = \<lparr>nodes = map nodeFields (nodes h), edges = map edgeFields (edges h)\<rparr>"

text \<open>The projection of the save effect, on a node, on an edge and on a graph.\<close>

definition projectNode :: "Node \<Rightarrow> NodeObject" where
  "projectNode node =
     \<lparr>node_id = node_id node, node_position = node_position node,
      node_type = node_type node,
      data = \<lparr>label = label (data node), nodeCategory = nodeCategory (data node),
              color = color (data node), content = content (data node),
              customHandles = customHandles (data node)\<rparr>,
      node_keys = [Key ''id'', Key ''position'', Key ''type'', Key ''data''],
      data_keys = [Key ''label'', Key ''nodeCategory'', Key ''color'',
                   Key ''content'', Key ''customHandles'']\<rparr>"

definition projectEdge :: "Edge \<Rightarrow> EdgeObject" where
  "projectEdge edge =
     \<lparr>edge_id = edge_id edge, source = source edge, target = target edge,
      sourceHandle = sourceHandle edge, targetHandle = targetHandle edge,
      edge_type = edge_type edge, animated = animated edge,
      edge_style = edge_style edge,
      edge_keys = [Key ''id'', Key ''source'', Key ''target'',
                   Key ''sourceHandle'', Key ''targetHandle'',
                   Key ''type'', Key ''animated'', Key ''style'']\<rparr>"

definition projection :: "(Node, Edge) FlowState \<Rightarrow> HistoryEntry" where
  "projection g = \<lparr>nodes = map projectNode (nodes g), edges = map projectEdge (edges g)\<rparr>"

text \<open>Two entries with the same texts.\<close>

definition sameText :: "HistoryEntry \<Rightarrow> HistoryEntry \<Rightarrow> bool" where
  "sameText a b =
     (JSON_stringify_nodes (nodes a) = JSON_stringify_nodes (nodes b) \<and>
      JSON_stringify_edges (edges a) = JSON_stringify_edges (edges b))"

section \<open>Runs of the editor\<close>

text \<open>
  Every handler that sets \<^verbatim>\<open>nodes\<close> or \<^verbatim>\<open>edges\<close> is followed by a render and by the save
  effect. A sequence of \<^verbatim>\<open>createNode\<close> and \<^verbatim>\<open>removeNode\<close> calls, each with the values it
  draws:
\<close>

datatype Call =
    CreateNode string string nat string XYPosition
  | RemoveNode string

fun call :: "Call \<Rightarrow> Flow \<Rightarrow> Flow" where
  "call (CreateNode nanoid1 nanoid2 r nodeCat position) st =
     saveEffect (createNewNode nanoid1 nanoid2 r nodeCat position st)"
| "call (RemoveNode nodeId) st = saveEffect (handleDeleteNode nodeId st)"

definition calls :: "Call list \<Rightarrow> Flow \<Rightarrow> Flow" where
  "calls cs st = fold call cs st"

text \<open>
  The states that the component's own handlers reach from a mount. The shape
  arguments have the type \<^verbatim>\<open>NodeCategoryType\<close>, and the three places that dispatch
  \<^verbatim>\<open>updateNodeData\<close> send a colour of the palette, a label or a content only. What the
  rendering library applies by itself through \<^verbatim>\<open>onNodesChange\<close> and \<^verbatim>\<open>onEdgesChange\<close>
  (drags, selections) is not part of the relation.
\<close>

inductive reachable :: "(Edge \<Rightarrow> Edge list \<Rightarrow> Edge list) \<Rightarrow> Flow \<Rightarrow> bool"
  for addEdge :: "Edge \<Rightarrow> Edge list \<Rightarrow> Edge list" where
  mounted: "reachable addEdge (saveEffect (loadEffect nanoid (initialFlow slot)))"
| created: "reachable addEdge st \<Longrightarrow> nodeCat \<in> set AVAILABLE_SHAPES \<Longrightarrow>
     reachable addEdge (saveEffect (createNewNode nanoid1 nanoid2 r nodeCat position st))"
| connected: "reachable addEdge st \<Longrightarrow>
     reachable addEdge (saveEffect (onConnect addEdge newId params st))"
| deleted: "reachable addEdge st \<Longrightarrow>
     reachable addEdge (saveEffect (handleDeleteNode nodeId st))"
| reshaped: "reachable addEdge st \<Longrightarrow> newType \<in> set AVAILABLE_SHAPES \<Longrightarrow>
     reachable addEdge (saveEffect (handleChangeNodeType newId nodeId newType st))"
| updated: "reachable addEdge st \<Longrightarrow>
     new_nodeCategory newData = None \<Longrightarrow> new_customHandles newData = None \<Longrightarrow>
     (case new_color newData of Some c \<Rightarrow> c \<in> set COLORS | None \<Rightarrow> True) \<Longrightarrow>
     reachable addEdge (saveEffect (handleUpdateNodeData nodeId newData st))"
| undone: "reachable addEdge st \<Longrightarrow> reachable addEdge (saveEffect (undo st))"
| redone: "reachable addEdge st \<Longrightarrow> reachable addEdge (saveEffect (redo st))"
| cleared: "reachable addEdge st \<Longrightarrow> reachable addEdge (saveEffect (clearAll st))"
| clicked: "reachable addEdge st \<Longrightarrow> node \<in> set (nodes st) \<Longrightarrow>
     reachable addEdge (onNodeClick node st)"
| pane_clicked: "reachable addEdge st \<Longrightarrow> reachable addEdge (onPaneClick st)"

section \<open>The properties, as predicates\<close>

text \<open>The render type of a node is its category, one of the available shapes.\<close>

definition nodeOk :: "'a Node_scheme \<Rightarrow> bool" where
  "nodeOk n = (node_type n = nodeCategory (data n) \<and> nodeCategory (data n) \<in> set AVAILABLE_SHAPES)"

text \<open>A node as the editor makes it and the loader leaves it: a known shape, a colour
  and at least one handle.\<close>

definition normalNode :: "'a Node_scheme \<Rightarrow> bool" where
  "normalNode n = (nodeOk n \<and> color (data n) \<noteq> [] \<and> customHandles (data n) \<noteq> [])"

text \<open>Every node of the live graph and of the history is such a node.\<close>

definition allNormal :: "Flow \<Rightarrow> bool" where
  "allNormal st =
     (list_all normalNode (nodes st) \<and>
      list_all (\<lambda>h. list_all normalNode (nodes h)) (history st))"

text \<open>The initial load is done and the cursor is an index of the history.\<close>

definition inRange :: "Flow \<Rightarrow> bool" where
  "inRange st = (isInitialLoadDone st \<and> currentStep st < length (history st))"

text \<open>Moreover the entry at the cursor has the texts of the live graph's projection.\<close>

definition synced :: "Flow \<Rightarrow> bool" where
  "synced st = (inRange st \<and> sameText (history st ! currentStep st) (projection (snapshot st)))"

text \<open>An entry whose texts are those of the projection of its own graph: recording the
  graph it restores changes nothing.\<close>

definition canonical :: "HistoryEntry \<Rightarrow> bool" where
  "canonical h = sameText h (projection (restored h))"



text \<open>The node identifiers that an edge refers to.\<close>

definition edgeRefs :: "Edge \<Rightarrow> string list" where
  "edgeRefs e =
     (case source e of Some i \<Rightarrow> [i] | None \<Rightarrow> []) @
     (case target e of Some i \<Rightarrow> [i] | None \<Rightarrow> [])"

text \<open>No edge refers to a node identifier that the node collection lacks.\<close>

definition noDangling :: "Flow \<Rightarrow> bool" where
  "noDangling st =
     list_all (\<lambda>e. list_all (\<lambda>i. i \<in> set (map node_id (nodes st))) (edgeRefs e)) (edges st)"

text \<open>The ends of an edge: its identifier, its two nodes and its two handles.\<close>

definition edgeEnds ::
    "'a Edge_scheme \<Rightarrow>
       string \<times> string option \<times> string option \<times> string option \<times> string option" where
  "edgeEnds e = (edge_id e, source e, target e, sourceHandle e, targetHandle e)"

text \<open>In the words of the spec: the handle \<open>h\<close> exists on the node \<open>i\<close>, among its current
  connection points.\<close>

definition handleOnNode :: "Node list \<Rightarrow> string option \<Rightarrow> string option \<Rightarrow> bool" where
  "handleOnNode nds i h =
     list_ex (\<lambda>n. Some (node_id n) = i \<and>
                  list_ex (\<lambda>p. Some (handle_id p) = h) (customHandles (data n))) nds"

text \<open>In the words of the spec: the label ends in a numeric suffix, that is, in a
  decimal digit.\<close>

definition endsInNumericSuffix :: "string \<Rightarrow> bool" where
  "endsInNumericSuffix l = (l \<noteq> [] \<and> last l \<in> set ''0123456789'')"

text \<open>An integer in decimal notation.\<close>

definition intToString :: "int \<Rightarrow> string" where
  "intToString k = (if k < 0 then CHR ''-'' # natToString (nat (- k)) else natToString (nat k))"

text \<open>The next sequential number among the nodes that already have the shape
  \<open>newType\<close>, for the node \<open>nodeId\<close>.\<close>

definition nextNumber :: "string \<Rightarrow> string \<Rightarrow> Node list \<Rightarrow> nat" where
  "nextNumber nodeId newType nds =
     length (filter (\<lambda>node. node_id node \<noteq> nodeId \<and> nodeCategory (data node) = newType) nds) + 1"

section \<open>Example states\<close>

text \<open>A mount over an empty slot (\<open>flow0\<close>), then one rectangle at the origin, before the
  save effect has run (\<open>flow1\<close>) and after it (\<open>flow2\<close>), then one circle (\<open>flow3\<close>).\<close>

definition origin :: XYPosition where
  "origin = \<lparr>pos_x = 0, pos_y = 0\<rparr>"

definition flow0 :: Flow where
  "flow0 = saveEffect (loadEffect (\<lambda>k. ''f'') (initialFlow None))"

definition flow1 :: Flow where
  "flow1 = createNewNode ''a'' ''z'' 0 ''rectangle'' origin flow0"

definition flow2 :: Flow where
  "flow2 = saveEffect flow1"

definition flow3 :: Flow where
  "flow3 = saveEffect (createNewNode ''b'' ''z'' 1 ''circle'' \<lparr>pos_x = 200, pos_y = 0\<rparr> flow2)"

text \<open>The rectangle's source on the right connected to the circle's target on the top.\<close>

definition flow4 :: Flow where
  "flow4 = saveEffect (onConnect addEdge_appending ''e''
     \<lparr>conn_source = Some ''a'', conn_target = Some ''b'',
      conn_sourceHandle = Some ''a-right-source'',
      conn_targetHandle = Some ''b-top-target''\<rparr> flow3)"

text \<open>The update that the label editor dispatches, and the rectangle of \<open>flow2\<close> renamed
  by it.\<close>

definition relabel :: "string \<Rightarrow> PartialNodeData" where
  "relabel l = \<lparr>new_label = Some l, new_nodeCategory = None, new_color = None,
                new_content = None, new_customHandles = None\<rparr>"

definition flowR3 :: Flow where
  "flowR3 = saveEffect (handleUpdateNodeData ''a'' (relabel ''Rectangle 3'') flow2)"

definition flowDraft :: Flow where
  "flowDraft = saveEffect (handleUpdateNodeData ''a'' (relabel ''Draft 2b'') flow2)"

definition flowPlan :: Flow where
  "flowPlan = saveEffect (handleUpdateNodeData ''a'' (relabel ''Plan B'') flow2)"

text \<open>A stored node of an unknown shape that was saved with a handle of its own, and a
  slot that holds it.\<close>

definition triangleNode :: StoredNode where
  "triangleNode =
     \<lparr>sn_id = ''t1'', sn_position = origin, sn_type = Some ''triangle'',
      sn_data = \<lparr>sd_label = ''Triangle 1'', sd_nodeCategory = Some ''triangle'',
                 sd_color = Some ''#2563eb'', sd_content = Some [],
                 sd_customHandles =
                   Some [\<lparr>handle_type = Source, handle_position = Top,
                          handle_id = ''t1-apex'', handle_style = []\<rparr>],
                 sd_keys = [Key ''label'', Key ''nodeCategory'', Key ''color'',
                            Key ''content'', Key ''customHandles'']\<rparr>,
      sn_keys = [Key ''id'', Key ''position'', Key ''type'', Key ''data'']\<rparr>"

definition triangleSlot :: "SavedText option" where
  "triangleSlot = Some (Parsable \<lparr>sf_nodes = Some [triangleNode], sf_edges = None\<rparr>)"

text \<open>A stored node whose identifier is the empty text, and a slot that holds it.\<close>

definition blankNode :: StoredNode where
  "blankNode =
     \<lparr>sn_id = [], sn_position = origin, sn_type = Some ''rectangle'',
      sn_data = \<lparr>sd_label = ''Rectangle 1'', sd_nodeCategory = Some ''rectangle'',
                 sd_color = Some ''#2563eb'', sd_content = Some [],
                 sd_customHandles = None,
                 sd_keys = [Key ''label'', Key ''nodeCategory'', Key ''color'',
                            Key ''content'']\<rparr>,
      sn_keys = [Key ''id'', Key ''position'', Key ''type'', Key ''data'']\<rparr>"

definition blankSlot :: "SavedText option" where
  "blankSlot = Some (Parsable \<lparr>sf_nodes = Some [blankNode], sf_edges = Some []\<rparr>)"

definition flowBlank :: Flow where
  "flowBlank = saveEffect (loadEffect (\<lambda>k. ''f'') (initialFlow blankSlot))"

text \<open>A stored rectangle that was saved without a colour, a slot that holds it, and the
  mount over that slot before its save effect (\<open>flowPlain0\<close>) and after it
  (\<open>flowPlain\<close>).\<close>

definition plainNode :: StoredNode where
  "plainNode =
     \<lparr>sn_id = ''p1'', sn_position = origin, sn_type = Some ''rectangle'',
      sn_data = \<lparr>sd_label = ''Rectangle 1'', sd_nodeCategory = Some ''rectangle'',
                 sd_color = None, sd_content = Some [],
                 sd_customHandles = Some (getDefaultHandlesForShape ''f'' ''rectangle'' ''p1''),
                 sd_keys = [Key ''label'', Key ''nodeCategory'', Key ''content'',
                            Key ''customHandles'']\<rparr>,
      sn_keys = [Key ''id'', Key ''position'', Key ''type'', Key ''data'']\<rparr>"

definition plainSlot :: "SavedText option" where
  "plainSlot = Some (Parsable \<lparr>sf_nodes = Some [plainNode], sf_edges = Some []\<rparr>)"

definition flowPlain0 :: Flow where
  "flowPlain0 = loadEffect (\<lambda>k. ''f'') (initialFlow plainSlot)"

definition flowPlain :: Flow where
  "flowPlain = saveEffect flowPlain0"

lemmas example_defs = flow4_def onConnect_def addEdge_appending_def noDangling_def edgeRefs_def
  handleDeleteNode_def handleOnNode_def flow3_def flow2_def flow1_def flow0_def origin_def flowBlank_def
  blankSlot_def blankNode_def triangleSlot_def triangleNode_def
  createNewNode_def loadEffect_def loadNode_def loadEdge_def includes_shape_def orElse_def
  startFrom_def initialFlow_def saveEffect_def stringify_def storedNode_def storedEdge_def
  getDefaultHandlesForShape_def capitalize_def toUpperCase_def natToString.simps COLORS_def
  AVAILABLE_SHAPES_def snapshot_def Let_def
  nodeFields_def edgeFields_def withKey_def JSON_stringify_nodes_def JSON_stringify_edges_def
  nodeMember_def dataMember_def edgeMember_def JString_or_null_def

lemmas plain_defs = flowPlain_def flowPlain0_def plainSlot_def plainNode_def restored_def
  projection_def projectNode_def projectEdge_def sameText_def canonical_def undo_def redo_def
  example_defs

lemmas label_defs = flowR3_def flowDraft_def flowPlan_def relabel_def handleUpdateNodeData_def mergeData_def
  handleChangeNodeType_def changedNode_def nextNumber_def numberToString_def parseInt_def
  hasHexPrefix_def isWhiteSpace_def radixDigit_def digitValue_def isDigit_def
  endsInNumericSuffix_def toNumber_def roundToDouble_def bitLength.simps doubleToString_def
  intToString_def example_defs

lemmas double_defs = candidate_def shortest_def exponential_def label_defs

section \<open>The shape registry\<close>

lemma circle_roles:
  "map handleRole (getDefaultHandlesForShape nanoid ''circle'' nodeId) =
     [(Target, Top), (Source, Bottom), (Target, Left), (Source, Right)]"
  by (simp add: getDefaultHandlesForShape_def handleRole_def Let_def)

lemma circle_length: "length (getDefaultHandlesForShape nanoid ''circle'' nodeId) = 4"
  by (simp add: getDefaultHandlesForShape_def Let_def)

lemma circle_roles_copy:
  "map handleRole (getDefaultHandlesForShape_copy nanoid ''circle'' nodeId) =
     [(Target, Top), (Target, Top), (Source, Bottom), (Source, Bottom),
      (Target, Left), (Target, Left), (Source, Right), (Source, Right)]"
  by (simp add: getDefaultHandlesForShape_copy_def handleRole_def Let_def)

text \<open>
  C1, as the code has it. In \<^verbatim>\<open>dashboard/flow.tsx\<close> the default connection points of a
  circle are four, for every node identifier: a target on the top, a source on the
  bottom, a target on the left and a source on the right; so a circle node that
  \<^verbatim>\<open>createNewNode\<close> makes, or that \<^verbatim>\<open>handleChangeNodeType\<close> reshapes, has exactly four
  connection points. The layout with two points on each side is the one of the second
  copy of the editor.
\<close>

theorem circle_has_four_default_handles:
  "map handleRole (getDefaultHandlesForShape nanoid ''circle'' nodeId) =
     [(Target, Top), (Source, Bottom), (Target, Left), (Source, Right)]
   \<and> length (customHandles (data (last (nodes
        (createNewNode nanoid1 nanoid2 r ''circle'' position st))))) = 4
   \<and> length (customHandles (data (changedNode nanoid nodeId' ''circle'' nds n))) = 4
   \<and> map handleRole (getDefaultHandlesForShape_copy nanoid ''circle'' nodeId) =
     [(Target, Top), (Target, Top), (Source, Bottom), (Source, Bottom),
      (Target, Left), (Target, Left), (Source, Right), (Source, Right)]"
  by (simp add: circle_roles circle_roles_copy circle_length createNewNode_def
      changedNode_def Let_def)

text \<open>C1, as the claim states it, fails: the circle of the node \<open>n1\<close> has not eight
  connection points.\<close>

theorem circle_eight_points_counterexample:
  "length (getDefaultHandlesForShape ''fresh'' ''circle'' ''n1'') \<noteq> 8"
  by (simp add: getDefaultHandlesForShape_def Let_def)

text \<open>
  C9. For a non-empty node identifier the registry does not depend on what
  \<^verbatim>\<open>nanoid()\<close> would return: the same shape and identifier give the same sequence; the
  identifier of each connection point is the node's identifier followed by the fixed
  suffix of its place in the shape's layout; and a rectangle has exactly one target on
  the left and one source on the right, in this order.
\<close>

theorem default_handles_deterministic:
  assumes "nodeId \<noteq> []"
  shows "getDefaultHandlesForShape nanoid shapeType nodeId =
           getDefaultHandlesForShape nanoid' shapeType nodeId
       \<and> map handle_id (getDefaultHandlesForShape nanoid shapeType nodeId) =
           map (\<lambda>suffix. nodeId @ suffix) (handleSuffixes shapeType)
       \<and> map handleRole (getDefaultHandlesForShape nanoid ''rectangle'' nodeId) =
           [(Target, Left), (Source, Right)]"
  using assms
  by (simp add: getDefaultHandlesForShape_def handleSuffixes_def handleRole_def Let_def)

theorem default_handles_deterministic_witness:
  "getDefaultHandlesForShape ''a'' ''rectangle'' ''n1'' =
     getDefaultHandlesForShape ''b'' ''rectangle'' ''n1''
   \<and> map handle_id (getDefaultHandlesForShape ''a'' ''rectangle'' ''n1'') =
     [''n1-left-target'', ''n1-right-source'']
   \<and> map handleRole (getDefaultHandlesForShape ''a'' ''rectangle'' ''n1'') =
     [(Target, Left), (Source, Right)]"
proof -
  have nonempty: "''n1'' \<noteq> []" by simp
  note fact = default_handles_deterministic [OF nonempty, of "''a''" "''rectangle''" "''b''"]
  have suffixes: "map (\<lambda>suffix. ''n1'' @ suffix) (handleSuffixes ''rectangle'') =
      [''n1-left-target'', ''n1-right-source'']"
    by (simp add: handleSuffixes_def)
  show ?thesis
    unfolding suffixes [symmetric] by (rule fact)
qed

section \<open>The save effect and the history\<close>

lemma nodes_projection:
  "map (\<lambda>node. \<lparr>node_id = node_id node, node_position = node_position node,
                 node_type = node_type node,
                 data = \<lparr>label = label (data node), nodeCategory = nodeCategory (data node),
                         color = color (data node), content = content (data node),
                         customHandles = customHandles (data node)\<rparr>,
                 node_keys = [Key ''id'', Key ''position'', Key ''type'', Key ''data''],
                 data_keys = [Key ''label'', Key ''nodeCategory'', Key ''color'',
                              Key ''content'', Key ''customHandles'']\<rparr>) ns = map projectNode ns"
  by (simp add: projectNode_def)

lemma edges_projection:
  "map (\<lambda>edge. \<lparr>edge_id = edge_id edge, source = source edge, target = target edge,
                 sourceHandle = sourceHandle edge, targetHandle = targetHandle edge,
                 edge_type = edge_type edge, animated = animated edge,
                 edge_style = edge_style edge,
                 edge_keys = [Key ''id'', Key ''source'', Key ''target'',
                              Key ''sourceHandle'', Key ''targetHandle'',
                              Key ''type'', Key ''animated'', Key ''style'']\<rparr>) es = map projectEdge es"
  by (simp add: projectEdge_def)

lemma nodeFields_projectNode [simp]: "nodeFields (projectNode n) = n"
  by (simp add: nodeFields_def projectNode_def)

lemma edgeFields_projectEdge [simp]: "edgeFields (projectEdge e) = e"
  by (simp add: edgeFields_def projectEdge_def)

lemma restored_projection [simp]: "restored (projection g) = g"
  by (simp add: restored_def projection_def comp_def)

lemma nodes_snapshot [simp]: "nodes (snapshot st) = nodes st" "edges (snapshot st) = edges st"
  by (simp_all add: snapshot_def)






lemma JString_or_null_inject [simp]: "(JString_or_null a = JString_or_null b) = (a = b)"
  by (cases a; cases b) (simp_all add: JString_or_null_def)

lemma JString_or_null_neq [simp]: "JString_or_null a \<noteq> JText t" "JString_or_null a \<noteq> JBool f"
  "JString_or_null a \<noteq> JStyle s"
  by (cases a, simp_all add: JString_or_null_def)+










lemma sameText_refl [simp]: "sameText h h"
  by (simp add: sameText_def)




text \<open>The effect in short: the arrays to save are the projection of the live graph, and
  the last entry of the base is compared with it by its texts.\<close>

lemma saveEffect_eq:
  "saveEffect st =
     (if \<not> isInitialLoadDone st then st
      else
        (let base = take (currentStep st + 1) (history st);
             entry = projection (snapshot st);
             st1 = st\<lparr>localStorage := Some (stringify (nodes entry) (edges entry))\<rparr>
         in if base \<noteq> [] \<and> sameText (last base) entry then st1
            else st1\<lparr>history := base @ [entry], currentStep := length base\<rparr>))"
  by (auto simp: saveEffect_def Let_def last_conv_nth nodes_projection edges_projection
      sameText_def projection_def)

lemma saveEffect_graph [simp]:
  "nodes (saveEffect st) = nodes st"
  "edges (saveEffect st) = edges st"
  "selectedNode (saveEffect st) = selectedNode st"
  "isInitialLoadDone (saveEffect st) = isInitialLoadDone st"
  by (simp_all add: saveEffect_eq Let_def)

lemma snapshot_saveEffect [simp]: "snapshot (saveEffect st) = snapshot st"
  by (simp add: snapshot_def)








section \<open>Undo and redo\<close>

lemma undo_eq:
  "undo st =
     (if 0 < currentStep st \<and> currentStep st - 1 < length (history st)
      then st\<lparr>nodes := nodes (restored (history st ! (currentStep st - 1))),
              edges := edges (restored (history st ! (currentStep st - 1))),
              currentStep := currentStep st - 1\<rparr>
      else st)"
  by (simp add: undo_def Let_def restored_def)

lemma redo_eq:
  "redo st =
     (if currentStep st + 1 < length (history st)
      then st\<lparr>nodes := nodes (restored (history st ! (currentStep st + 1))),
              edges := edges (restored (history st ! (currentStep st + 1))),
              currentStep := currentStep st + 1\<rparr>
      else st)"
  by (auto simp add: redo_def Let_def restored_def)





text \<open>The two examples are states of the editor.\<close>

lemma flow2_reachable: "reachable addEdge flow2"
  unfolding flow2_def flow1_def flow0_def
  by (intro reachable.intros) (simp add: AVAILABLE_SHAPES_def)





lemma synced_inRange: "synced st \<Longrightarrow> inRange st"
  by (simp add: synced_def)















text \<open>After the mount over the slot whose node was saved without a colour, \<^verbatim>\<open>undo\<close>
  restores the loaded entry, which the effect records once more: the cursor is back
  on the last entry and \<^verbatim>\<open>redo\<close> has nothing to do; the graph is the one from before.\<close>

lemma undo_at_loaded_entry:
  "currentStep flowPlain = 1 \<and> \<not> canonical (history flowPlain ! 0)
   \<and> currentStep (saveEffect (undo flowPlain)) = 1
   \<and> length (history (saveEffect (undo flowPlain))) = 2
   \<and> snapshot (saveEffect (undo flowPlain)) = snapshot flowPlain"
  by (simp add: plain_defs)

section \<open>The load effect\<close>

text \<open>
  C8. When the slot holds a text that \<^verbatim>\<open>JSON.parse\<close> rejects, the load effect catches
  the error, removes the slot and starts from the empty graph: no node, no edge, the
  history reset to the single empty entry with the cursor on it. It returns a state as
  on every other path, and the save effect that follows keeps the empty graph and the
  single entry. (The empty text is falsy and never parsed: it gives the same empty
  graph and stays in the slot until the save effect overwrites it.)
\<close>

theorem malformed_slot_starts_empty:
  "loadEffect nanoid (initialFlow (Some Unparsable)) =
     \<lparr>nodes = [], edges = [], selectedNode = None,
      history = [\<lparr>nodes = [], edges = []\<rparr>], currentStep = 0,
      isInitialLoadDone = True, localStorage = None\<rparr>
   \<and> loadEffect nanoid (st\<lparr>localStorage := Some Unparsable\<rparr>) =
     st\<lparr>nodes := [], edges := [], history := [\<lparr>nodes = [], edges = []\<rparr>], currentStep := 0,
        isInitialLoadDone := True, localStorage := None\<rparr>
   \<and> nodes (saveEffect (loadEffect nanoid (initialFlow (Some Unparsable)))) = []
   \<and> edges (saveEffect (loadEffect nanoid (initialFlow (Some Unparsable)))) = []
   \<and> history (saveEffect (loadEffect nanoid (initialFlow (Some Unparsable)))) =
       [\<lparr>nodes = [], edges = []\<rparr>]
   \<and> currentStep (saveEffect (loadEffect nanoid (initialFlow (Some Unparsable)))) = 0
   \<and> loadEffect nanoid (initialFlow (Some EmptyText)) =
     \<lparr>nodes = [], edges = [], selectedNode = None,
      history = [\<lparr>nodes = [], edges = []\<rparr>], currentStep = 0,
      isInitialLoadDone = True, localStorage = Some EmptyText\<rparr>"
  by (simp add: loadEffect_def startFrom_def initialFlow_def saveEffect_eq Let_def snapshot_def
      projection_def sameText_def JSON_stringify_nodes_def JSON_stringify_edges_def)

section \<open>Nodes stay in normal form\<close>

lemma colors_nonempty: "COLORS ! (r mod length COLORS) \<noteq> []"
proof -
  have "r mod length COLORS < length COLORS" by (simp add: COLORS_def)
  then have "COLORS ! (r mod length COLORS) \<in> set COLORS" by (rule nth_mem)
  then show ?thesis by (auto simp: COLORS_def)
qed

lemma palette_nonempty: "c \<in> set COLORS \<Longrightarrow> c \<noteq> []"
  by (auto simp: COLORS_def)

lemma default_handles_nonempty:
  "shapeType \<in> set AVAILABLE_SHAPES \<Longrightarrow> getDefaultHandlesForShape nanoid shapeType nodeId \<noteq> []"
  by (auto simp: AVAILABLE_SHAPES_def getDefaultHandlesForShape_def Let_def)

lemma loadNode_category:
  "nodeCategory (data (loadNode nanoid node)) \<in> set AVAILABLE_SHAPES"
  "node_type (loadNode nanoid node) = nodeCategory (data (loadNode nanoid node))"
  by (auto simp: loadNode_def Let_def includes_shape_def AVAILABLE_SHAPES_def split: option.splits)

lemma orElse_nonempty: "fallback \<noteq> [] \<Longrightarrow> orElse v fallback \<noteq> []"
  by (simp add: orElse_def split: option.splits)

lemma loadNode_normal: "normalNode (loadNode nanoid node)"
proof -
  have c: "color (data (loadNode nanoid node)) \<noteq> []"
    by (simp add: loadNode_def Let_def orElse_nonempty COLORS_def)
  have h: "customHandles (data (loadNode nanoid node)) \<noteq> []"
    using default_handles_nonempty [OF loadNode_category(1), of nanoid nanoid node "sn_id node"]
    by (auto simp: loadNode_def Let_def split: option.splits)
  show ?thesis
    using c h loadNode_category [of nanoid node] by (simp add: normalNode_def nodeOk_def)
qed

lemma new_node_normal:
  "nodeCat \<in> set AVAILABLE_SHAPES \<Longrightarrow>
   normalNode (last (nodes (createNewNode nanoid1 nanoid2 r nodeCat position st)))"
  by (simp add: normalNode_def nodeOk_def createNewNode_def Let_def colors_nonempty
      default_handles_nonempty)

lemma changedNode_normal:
  "newType \<in> set AVAILABLE_SHAPES \<Longrightarrow> color (data n) \<noteq> [] \<Longrightarrow>
   normalNode (changedNode nanoid nodeId newType nds n)"
  by (simp add: normalNode_def nodeOk_def changedNode_def Let_def default_handles_nonempty)

lemma allNormal_iff:
  "allNormal st \<longleftrightarrow>
     (\<forall>n \<in> set (nodes st). normalNode n) \<and>
     (\<forall>h \<in> set (history st). \<forall>n \<in> set (nodes h). normalNode n)"
  by (simp add: allNormal_def list_all_iff)

lemma normalNode_nodeFields [simp]: "normalNode (nodeFields n) = normalNode n"
  by (simp add: normalNode_def nodeOk_def nodeFields_def)

lemma normalNode_projectNode [simp]: "normalNode (projectNode n) = normalNode n"
  by (simp add: normalNode_def nodeOk_def projectNode_def)

lemma allNormal_saveEffect: "allNormal st \<Longrightarrow> allNormal (saveEffect st)"
  by (auto simp: allNormal_iff saveEffect_eq Let_def snapshot_def projection_def
      dest: in_set_takeD)

lemma allNormal_load: "allNormal (loadEffect nanoid (initialFlow slot))"
  by (auto simp: allNormal_iff loadEffect_def startFrom_def initialFlow_def Let_def
      loadNode_normal set_zip split: option.splits SavedText.splits)

lemma allNormal_create:
  assumes "allNormal st" "nodeCat \<in> set AVAILABLE_SHAPES"
  shows "allNormal (createNewNode nanoid1 nanoid2 r nodeCat position st)"
proof -
  let ?st' = "createNewNode nanoid1 nanoid2 r nodeCat position st"
  have new: "normalNode (last (nodes ?st'))"
    using assms(2) by (rule new_node_normal)
  have "set (nodes ?st') = insert (last (nodes ?st')) (set (nodes st))"
    by (simp add: createNewNode_def Let_def)
  moreover have "history ?st' = history st"
    by (simp add: createNewNode_def Let_def)
  ultimately show ?thesis
    using assms(1) new by (simp add: allNormal_iff)
qed

lemma allNormal_connect: "allNormal st \<Longrightarrow> allNormal (onConnect addEdge newId params st)"
  by (simp add: allNormal_iff onConnect_def Let_def)

lemma allNormal_delete: "allNormal st \<Longrightarrow> allNormal (handleDeleteNode nodeId st)"
  by (simp add: allNormal_iff handleDeleteNode_def)

lemma allNormal_reshape:
  assumes "allNormal st" "newType \<in> set AVAILABLE_SHAPES"
  shows "allNormal (handleChangeNodeType newId nodeId newType st)"
proof -
  have "normalNode (changedNode newId nodeId newType (nodes st) n)"
    if "n \<in> set (nodes st)" for n
    using assms that by (intro changedNode_normal) (simp_all add: allNormal_iff normalNode_def)
  then show ?thesis
    using assms(1) by (auto simp: allNormal_iff handleChangeNodeType_def)
qed

lemma allNormal_update:
  "allNormal st \<Longrightarrow> new_nodeCategory newData = None \<Longrightarrow> new_customHandles newData = None \<Longrightarrow>
   (case new_color newData of Some c \<Rightarrow> c \<in> set COLORS | None \<Rightarrow> True) \<Longrightarrow>
   allNormal (handleUpdateNodeData nodeId newData st)"
  by (auto simp: allNormal_iff handleUpdateNodeData_def normalNode_def nodeOk_def mergeData_def
      palette_nonempty split: option.splits)

lemma allNormal_undo: "allNormal st \<Longrightarrow> allNormal (undo st)"
  by (auto simp: allNormal_iff undo_eq restored_def)

lemma allNormal_redo: "allNormal st \<Longrightarrow> allNormal (redo st)"
  by (auto simp: allNormal_iff redo_eq restored_def)

lemma allNormal_clear: "allNormal st \<Longrightarrow> allNormal (clearAll st)"
  by (simp add: allNormal_iff clearAll_def)

lemma reachable_allNormal: "reachable addEdge st \<Longrightarrow> allNormal st"
proof (induction rule: reachable.induct)
  case (mounted nanoid slot)
  show ?case by (intro allNormal_saveEffect allNormal_load)
next
  case (clicked st node)
  then show ?case by (simp add: allNormal_iff onNodeClick_def)
next
  case (pane_clicked st)
  then show ?case by (simp add: allNormal_iff onPaneClick_def)
qed (auto intro: allNormal_saveEffect allNormal_create allNormal_connect allNormal_delete
      allNormal_reshape allNormal_update allNormal_undo allNormal_redo allNormal_clear)

text \<open>
  C10. The node that \<^verbatim>\<open>createNewNode\<close> appends for a shape of \<^verbatim>\<open>NodeCategoryType\<close>, the
  node that \<^verbatim>\<open>handleChangeNodeType\<close> returns for such a shape, and every node that the
  load effect builds, whatever was stored, has its render type equal to its category,
  which is \<^verbatim>\<open>rectangle\<close> or \<^verbatim>\<open>circle\<close>. So has every node of the live graph and of the
  history in every state that the handlers reach from a mount.
\<close>

theorem type_matches_category:
  "(nodeCat \<in> set AVAILABLE_SHAPES \<longrightarrow>
      nodeOk (last (nodes (createNewNode nanoid1 nanoid2 r nodeCat position st0))))
   \<and> (newType \<in> set AVAILABLE_SHAPES \<longrightarrow> nodeOk (changedNode nanoid nodeId newType nds n))
   \<and> nodeOk (loadNode nanoid node)
   \<and> (reachable addEdge st \<longrightarrow>
        list_all nodeOk (nodes st) \<and> list_all (\<lambda>h. list_all nodeOk (nodes h)) (history st))"
proof (intro conjI impI)
  assume "nodeCat \<in> set AVAILABLE_SHAPES"
  then show "nodeOk (last (nodes (createNewNode nanoid1 nanoid2 r nodeCat position st0)))"
    using new_node_normal by (simp add: normalNode_def)
next
  assume "newType \<in> set AVAILABLE_SHAPES"
  then show "nodeOk (changedNode nanoid nodeId newType nds n)"
    by (simp add: nodeOk_def changedNode_def Let_def)
next
  show "nodeOk (loadNode nanoid node)"
    using loadNode_normal by (simp add: normalNode_def)
next
  assume "reachable addEdge st"
  then have "allNormal st" by (rule reachable_allNormal)
  then show "list_all nodeOk (nodes st)"
    by (simp add: allNormal_iff list_all_iff normalNode_def)
next
  assume "reachable addEdge st"
  then have "allNormal st" by (rule reachable_allNormal)
  then show "list_all (\<lambda>h. list_all nodeOk (nodes h)) (history st)"
    by (simp add: allNormal_iff list_all_iff normalNode_def)
qed

theorem type_matches_category_witness:
  "nodeOk (last (nodes (createNewNode ''a'' ''z'' 0 ''rectangle'' origin flow0)))
   \<and> nodeOk (changedNode ''z'' ''a'' ''circle'' (nodes flow2) (hd (nodes flow2)))
   \<and> nodeOk (loadNode ''z'' triangleNode)
   \<and> list_all nodeOk (nodes flow2)
   \<and> list_all (\<lambda>h. list_all nodeOk (nodes h)) (history flow2)"
proof -
  have a: "''rectangle'' \<in> set AVAILABLE_SHAPES" by (simp add: AVAILABLE_SHAPES_def)
  have b: "''circle'' \<in> set AVAILABLE_SHAPES" by (simp add: AVAILABLE_SHAPES_def)
  have c: "reachable addEdge_appending flow2" by (rule flow2_reachable)
  show ?thesis
    using type_matches_category [where nodeCat = "''rectangle''" and ?nanoid1.0 = "''a''"
        and ?nanoid2.0 = "''z''" and r = 0 and position = origin and ?st0.0 = flow0
        and newType = "''circle''" and nanoid = "''z''" and nodeId = "''a''"
        and nds = "nodes flow2" and n = "hd (nodes flow2)" and node = triangleNode
        and addEdge = addEdge_appending and st = flow2] a b c
    by blast
qed

section \<open>Deleting a node\<close>

lemma noDangling_iff:
  "noDangling st \<longleftrightarrow>
     (\<forall>e \<in> set (edges st). \<forall>i. (source e = Some i \<or> target e = Some i) \<longrightarrow> i \<in> node_id ` set (nodes st))"
  by (auto simp: noDangling_def list_all_iff edgeRefs_def split: option.splits)

lemma noDangling_saveEffect [simp]: "noDangling (saveEffect st) = noDangling st"
  by (simp add: noDangling_iff)

lemma noDangling_createNewNode:
  "noDangling st \<Longrightarrow> noDangling (createNewNode nanoid1 nanoid2 r nodeCat position st)"
  by (auto simp: noDangling_iff createNewNode_def Let_def)

lemma noDangling_handleDeleteNode:
  "noDangling st \<Longrightarrow> noDangling (handleDeleteNode nodeId st)"
  by (auto simp: noDangling_iff handleDeleteNode_def)

lemma noDangling_call: "noDangling st \<Longrightarrow> noDangling (call c st)"
  by (cases c) (simp_all add: noDangling_createNewNode noDangling_handleDeleteNode)

lemma noDangling_calls: "noDangling st \<Longrightarrow> noDangling (calls cs st)"
  unfolding calls_def by (induction cs arbitrary: st) (simp_all add: noDangling_call)

lemma delete_absent:
  assumes "noDangling st" "nodeId \<notin> set (map node_id (nodes st))"
  shows "nodes (handleDeleteNode nodeId st) = nodes st" "edges (handleDeleteNode nodeId st) = edges st"
proof -
  have "\<forall>n \<in> set (nodes st). node_id n \<noteq> nodeId" using assms(2) by auto
  then have "filter (\<lambda>node. node_id node \<noteq> nodeId) (nodes st) = nodes st"
    by (simp add: filter_id_conv)
  then show "nodes (handleDeleteNode nodeId st) = nodes st" by (simp add: handleDeleteNode_def)
  have "\<forall>e \<in> set (edges st). source e \<noteq> Some nodeId \<and> target e \<noteq> Some nodeId"
    using assms by (auto simp: noDangling_iff)
  then have "filter (\<lambda>edge. source edge \<noteq> Some nodeId \<and> target edge \<noteq> Some nodeId) (edges st) = edges st"
    by (simp add: filter_id_conv)
  then show "edges (handleDeleteNode nodeId st) = edges st" by (simp add: handleDeleteNode_def)
qed

text \<open>
  C3, as the code has it. For a non-empty identifier \<^verbatim>\<open>handleDeleteNode\<close> keeps exactly
  the nodes with another identifier and, in the same step, exactly the edges whose
  source and target are both another node; for the empty identifier it does nothing,
  whatever the graph holds. On a graph with no dangling edge, an identifier that no
  node has leaves nodes and edges as they are, and after every sequence of
  \<^verbatim>\<open>createNode\<close> and \<^verbatim>\<open>removeNode\<close> calls no edge refers to a node identifier that the
  node collection lacks.
\<close>

theorem removeNode_cascades:
  "(nodeId \<noteq> [] \<longrightarrow>
       nodes (handleDeleteNode nodeId st) = filter (\<lambda>n. node_id n \<noteq> nodeId) (nodes st)
     \<and> edges (handleDeleteNode nodeId st) =
         filter (\<lambda>e. source e \<noteq> Some nodeId \<and> target e \<noteq> Some nodeId) (edges st))
   \<and> handleDeleteNode [] st = st
   \<and> (noDangling st \<longrightarrow>
        (nodeId \<notin> set (map node_id (nodes st)) \<longrightarrow>
           nodes (handleDeleteNode nodeId st) = nodes st
         \<and> edges (handleDeleteNode nodeId st) = edges st)
      \<and> noDangling (calls cs st))"
  using delete_absent [of st nodeId] noDangling_calls [of st cs]
  by (simp add: handleDeleteNode_def)

theorem removeNode_cascades_witness:
  "nodes (handleDeleteNode ''a'' flow4) = filter (\<lambda>n. node_id n \<noteq> ''a'') (nodes flow4)
   \<and> edges (handleDeleteNode ''a'' flow4) =
       filter (\<lambda>e. source e \<noteq> Some ''a'' \<and> target e \<noteq> Some ''a'') (edges flow4)
   \<and> handleDeleteNode [] flow4 = flow4
   \<and> nodes (handleDeleteNode ''ghost'' flow4) = nodes flow4
   \<and> edges (handleDeleteNode ''ghost'' flow4) = edges flow4
   \<and> noDangling (calls [CreateNode ''c'' ''z'' 2 ''circle'' origin, RemoveNode ''a''] flow4)"
proof -
  have a: "''a'' \<noteq> []" by simp
  have b: "noDangling flow4" by (simp add: example_defs)
  have c: "''ghost'' \<notin> set (map node_id (nodes flow4))" by (simp add: example_defs)
  show ?thesis
    using removeNode_cascades [of "''a''" flow4 "[]"]
      removeNode_cascades [of "''ghost''" flow4
        "[CreateNode ''c'' ''z'' 2 ''circle'' origin, RemoveNode ''a'']"] a b c
    by blast
qed

text \<open>C3, as the claim states it, fails for the empty identifier: the node that was
  loaded with it is still there after \<^verbatim>\<open>removeNode\<close> of its identifier.\<close>

theorem removeNode_empty_id_counterexample:
  "[] \<in> set (map node_id (nodes flowBlank))
   \<and> [] \<in> set (map node_id (nodes (handleDeleteNode [] flowBlank)))"
  by (simp add: example_defs)

section \<open>Connecting two handles\<close>

text \<open>
  C2, as the code has it. \<^verbatim>\<open>onConnect\<close> validates nothing: it gives the connection a
  fresh identifier and the fixed visual style and hands it to \<^verbatim>\<open>addEdge\<close> of the
  rendering library, whose result becomes the edge collection; the nodes are neither
  read nor changed, so the outcome is the same over any node collection. With an
  \<^verbatim>\<open>addEdge\<close> that appends, the edge is appended whatever its handles are.
\<close>

theorem connect_does_not_validate:
  "edges (onConnect addEdge newId params st) =
     addEdge \<lparr>edge_id = newId, source = conn_source params, target = conn_target params,
              sourceHandle = conn_sourceHandle params, targetHandle = conn_targetHandle params,
              edge_type = ''bezier'', animated = True,
              edge_style = \<lparr>stroke = ''#2563eb'', strokeWidth = 2\<rparr>\<rparr> (edges st)
   \<and> nodes (onConnect addEdge newId params st) = nodes st
   \<and> edges (onConnect addEdge newId params (st\<lparr>nodes := nds\<rparr>)) =
       edges (onConnect addEdge newId params st)
   \<and> edges (onConnect addEdge_appending newId params st) =
       edges st @
       [\<lparr>edge_id = newId, source = conn_source params, target = conn_target params,
         sourceHandle = conn_sourceHandle params, targetHandle = conn_targetHandle params,
         edge_type = ''bezier'', animated = True,
         edge_style = \<lparr>stroke = ''#2563eb'', strokeWidth = 2\<rparr>\<rparr>]"
  by (simp add: onConnect_def addEdge_appending_def Let_def)

text \<open>C2, as the claim states it, fails: the circle \<open>b\<close> has no handle \<open>b-top-left\<close>, and
  the call that names it adds the edge.\<close>

theorem connect_foreign_handle_counterexample:
  "\<not> handleOnNode (nodes flow3) (Some ''b'') (Some ''b-top-left'')
   \<and> edges flow3 = []
   \<and> map edgeEnds (edges (onConnect addEdge_appending ''e''
        \<lparr>conn_source = Some ''a'', conn_target = Some ''b'',
         conn_sourceHandle = Some ''a-right-source'',
         conn_targetHandle = Some ''b-top-left''\<rparr> flow3)) =
     [(''e'', Some ''a'', Some ''b'', Some ''a-right-source'', Some ''b-top-left'')]"
  by (simp add: example_defs edgeEnds_def)

section \<open>Save, then load\<close>










section \<open>Changing the shape of a node\<close>

subsection \<open>Splitting a label and reading its number\<close>

lemma isDigit_cases:
  "isDigit c \<Longrightarrow> c = CHR ''0'' \<or> c = CHR ''1'' \<or> c = CHR ''2'' \<or> c = CHR ''3'' \<or> c = CHR ''4''
     \<or> c = CHR ''5'' \<or> c = CHR ''6'' \<or> c = CHR ''7'' \<or> c = CHR ''8'' \<or> c = CHR ''9''"
  by (simp add: isDigit_def)

lemma isDigit_radix: "isDigit c \<Longrightarrow> \<exists>m. radixDigit 10 c = Some m"
  by (drule isDigit_cases) (elim disjE; simp add: radixDigit_def digitValue_def)

lemma isDigit_props:
  assumes "isDigit c"
  shows "\<not> isWhiteSpace c" "c \<noteq> CHR ''+''" "c \<noteq> CHR ''-''"
    "c \<noteq> CHR ''x''" "c \<noteq> CHR ''X''" "c \<noteq> CHR '' ''"
  using isDigit_cases [OF assms] by (elim disjE; simp add: isWhiteSpace_def)+


lemma hasHexPrefix_Cons:
  "hasHexPrefix (c # cs) \<longleftrightarrow>
     c = CHR ''0'' \<and> (case cs of [] \<Rightarrow> False | d # ds \<Rightarrow> d = CHR ''x'' \<or> d = CHR ''X'')"
  by (cases cs) (simp_all add: hasHexPrefix_def, blast)

lemma bitLength_le: "v < 2 ^ n \<Longrightarrow> bitLength v \<le> n"
proof (induction n arbitrary: v)
  case 0
  then show ?case by (simp add: bitLength.simps)
next
  case (Suc n)
  show ?case
  proof (cases "v = 0")
    case True
    then show ?thesis by (simp add: bitLength.simps)
  next
    case False
    from Suc.prems have "v div 2 < 2 ^ n" by simp
    then have "bitLength (v div 2) \<le> n" by (rule Suc.IH)
    then show ?thesis using False by (subst bitLength.simps) simp
  qed
qed

text \<open>Up to \<open>2 ^ 53\<close> a natural number is its own double.\<close>

lemma roundToDouble_exact: "v \<le> 2 ^ 53 \<Longrightarrow> roundToDouble v = Some v"
proof (cases "v = 2 ^ 53")
  case True
  have "bitLength (2 ^ 53) = 54" by (simp add: bitLength.simps)
  then show ?thesis unfolding True by (simp add: roundToDouble_def Let_def)
next
  case False
  assume "v \<le> 2 ^ 53"
  with False have "v < 2 ^ 53" by simp
  then have "bitLength v - 53 = 0" using bitLength_le [of v 53] by simp
  moreover from \<open>v < 2 ^ 53\<close> have "v < 2 ^ 1024"
    by (rule less_trans) simp
  ultimately show ?thesis by (simp add: roundToDouble_def Let_def)
qed

lemma toNumber_exact: "v \<le> 2 ^ 53 \<Longrightarrow> toNumber False v = Num (int v)"
  by (simp add: toNumber_def roundToDouble_exact)

lemma toNumber_not_NaN: "toNumber negative v \<noteq> NaN"
  by (simp add: toNumber_def split: option.split)

lemma parseInt_plain:
  assumes "\<not> isWhiteSpace c" "c \<noteq> CHR ''+''" "c \<noteq> CHR ''-''" "\<not> hasHexPrefix (c # cs)"
  shows "parseInt (c # cs) =
     (case radixDigit 10 c of None \<Rightarrow> NaN | Some d \<Rightarrow> toNumber False (digitsValue 10 0 (c # cs)))"
  using assms by (simp add: parseInt_def Let_def split: option.split del: digitsValue.simps)

lemma splitBy_nonempty [simp]: "splitBy sep s \<noteq> []"
  by (induction s) (auto split: list.splits)

lemma splitBy_no_sep: "sep \<notin> set w \<Longrightarrow> splitBy sep w = [w]"
  by (induction w) auto

lemma splitBy_two: "sep \<in> set s \<Longrightarrow> \<exists>p q qs. splitBy sep s = p # q # qs"
proof (induction s)
  case Nil
  then show ?case by simp
next
  case (Cons c cs)
  show ?case
  proof (cases "c = sep")
    case True
    then show ?thesis by (cases "splitBy sep cs") auto
  next
    case False
    with Cons.prems have "sep \<in> set cs" by simp
    then obtain p q qs where "splitBy sep cs = p # q # qs" using Cons.IH by blast
    with False show ?thesis by simp
  qed
qed

lemma last_splitBy_Cons:
  "last (splitBy sep (c # s)) =
     (if c \<noteq> sep \<and> sep \<notin> set s then c # s else last (splitBy sep s))"
proof (cases "c = sep")
  case True
  then show ?thesis by simp
next
  case False
  show ?thesis
  proof (cases "sep \<in> set s")
    case True
    then obtain p q qs where "splitBy sep s = p # q # qs" using splitBy_two by blast
    with False True show ?thesis by simp
  next
    case no: False
    with False show ?thesis by (simp add: splitBy_no_sep)
  qed
qed

lemma last_splitBy_suffix:
  "sep \<notin> set w \<Longrightarrow> last (splitBy sep (pre @ sep # w)) = w"
proof (induction pre)
  case Nil
  then show ?case by (simp add: splitBy_no_sep)
next
  case (Cons c pre)
  then show ?case by (simp only: append_Cons last_splitBy_Cons) auto
qed

lemma digit_char: "m < 10 \<Longrightarrow> radixDigit 10 (''0123456789'' ! m) = Some m"
proof -
  assume "m < 10"
  then have "m = 0 \<or> m = 1 \<or> m = 2 \<or> m = 3 \<or> m = 4 \<or> m = 5 \<or> m = 6 \<or> m = 7 \<or> m = 8 \<or> m = 9"
    by arith
  then show ?thesis by (elim disjE; simp add: radixDigit_def digitValue_def)
qed

lemma isDigit_nth: "m < 10 \<Longrightarrow> isDigit (''0123456789'' ! m)"
  unfolding isDigit_def by (rule nth_mem) simp

lemma natToString_digits: "natToString k \<noteq> [] \<and> list_all isDigit (natToString k)"
proof (induction k rule: natToString.induct)
  case (1 n)
  show ?case
  proof (cases "n < 10")
    case True
    then show ?thesis by (subst (1 2) natToString.simps) (simp add: isDigit_nth)
  next
    case False
    then have "list_all isDigit (natToString (n div 10))" using 1 by simp
    moreover have "isDigit (''0123456789'' ! (n mod 10))" by (rule isDigit_nth) simp
    ultimately show ?thesis using False by (subst (1 2) natToString.simps) simp
  qed
qed

lemma digitsValue_snoc:
  "list_all isDigit xs \<Longrightarrow> radixDigit 10 d = Some v \<Longrightarrow>
   digitsValue 10 acc (xs @ [d]) = digitsValue 10 acc xs * 10 + v"
proof (induction xs arbitrary: acc)
  case Nil
  then show ?case by simp
next
  case (Cons c cs)
  from Cons.prems(1) obtain m where "radixDigit 10 c = Some m"
    using isDigit_radix by auto
  with Cons show ?case by simp
qed

lemma digitsValue_natToString: "digitsValue 10 0 (natToString k) = k"
proof (induction k rule: natToString.induct)
  case (1 n)
  show ?case
  proof (cases "n < 10")
    case True
    then show ?thesis by (subst natToString.simps) (simp add: digit_char)
  next
    case False
    then have ih: "digitsValue 10 0 (natToString (n div 10)) = n div 10" using 1 by simp
    have d: "radixDigit 10 (''0123456789'' ! (n mod 10)) = Some (n mod 10)"
      by (rule digit_char) simp
    have "digitsValue 10 0 (natToString (n div 10) @ [''0123456789'' ! (n mod 10)]) = n div 10 * 10 + n mod 10"
      using digitsValue_snoc [OF _ d] natToString_digits ih by simp
    then show ?thesis using False by (subst natToString.simps) simp
  qed
qed

lemma parseInt_digits:
  assumes "s \<noteq> []" "list_all isDigit s"
  shows "parseInt s = toNumber False (digitsValue 10 0 s)"
proof -
  from assms obtain c cs where s: "s = c # cs" by (cases s) auto
  with assms(2) have c: "isDigit c" by simp
  have nohex: "\<not> hasHexPrefix (c # cs)"
  proof (cases cs)
    case Nil
    then show ?thesis by (simp add: hasHexPrefix_Cons)
  next
    case (Cons d ds)
    with assms(2) s have "isDigit d" by simp
    then show ?thesis using Cons by (simp add: hasHexPrefix_Cons isDigit_props)
  qed
  from c obtain m where m: "radixDigit 10 c = Some m" using isDigit_radix by blast
  show ?thesis
    unfolding s using parseInt_plain [OF isDigit_props(1-3) [OF c] nohex] m by simp
qed

lemma parseInt_natToString: "k \<le> 2 ^ 53 \<Longrightarrow> parseInt (natToString k) = Num (int k)"
  using parseInt_digits [of "natToString k"] natToString_digits [of k]
  by (simp add: digitsValue_natToString toNumber_exact)

lemma natToString_no_space: "CHR '' '' \<notin> set (natToString k)"
  using natToString_digits [of k] isDigit_props(6) by (auto simp: list_all_iff)


lemma radix10_isDigit: "radixDigit 10 c = Some d \<Longrightarrow> isDigit c"
proof -
  assume "radixDigit 10 c = Some d"
  then have dv: "digitValue c = Some d" and lt: "d < 10"
    by (simp_all add: radixDigit_def split: option.splits if_splits)
  from dv have "(c, d) \<in> set (zip ''0123456789abcdefABCDEF''
       [0, 1, 2, 3, 4, 5, 6, 7, 8, 9, 10, 11, 12, 13, 14, 15, 10, 11, 12, 13, 14, 15])"
    unfolding digitValue_def by (rule map_of_SomeD)
  with lt show ?thesis by (auto simp: isDigit_def)
qed

lemma parseInt_NaN:
  assumes "w = [] \<or> \<not> (isWhiteSpace (hd w) \<or> hd w = CHR ''+'' \<or> hd w = CHR ''-'' \<or> isDigit (hd w))"
  shows "parseInt w = NaN"
proof (cases w)
  case Nil
  then show ?thesis by (simp add: parseInt_def hasHexPrefix_def)
next
  case (Cons c cs)
  with assms have c: "\<not> isWhiteSpace c" "c \<noteq> CHR ''+''" "c \<noteq> CHR ''-''" "\<not> isDigit c" by auto
  have z: "c \<noteq> CHR ''0''" using c(4) by (auto simp: isDigit_def)
  then have nohex: "\<not> hasHexPrefix (c # cs)" by (simp add: hasHexPrefix_Cons)
  have r: "radixDigit 10 c = None"
    using c(4) radix10_isDigit [of c] by (cases "radixDigit 10 c") auto
  show ?thesis
    unfolding Cons using parseInt_plain [OF c(1-3) nohex] r by simp
qed

text \<open>Up to \<open>2 ^ 53\<close> in magnitude a number prints in decimal notation.\<close>

lemma numberToString_exact: "\<bar>j\<bar> \<le> 2 ^ 53 \<Longrightarrow> numberToString (Num j) = intToString j"
  by (auto simp: numberToString_def doubleToString_def intToString_def)

lemma numberToString_nat: "m \<le> 2 ^ 53 \<Longrightarrow> numberToString (Num (int m)) = natToString m"
  using numberToString_exact [of "int m"] by (simp add: intToString_def)

lemma changedNode_label:
  "label (data (changedNode nanoid nodeId newType nds n)) =
     capitalize newType @ '' '' @
       numberToString
         (if parseInt (last (splitBy (CHR '' '') (label (data n)))) = NaN
          then Num (int (nextNumber nodeId newType nds))
          else parseInt (last (splitBy (CHR '' '') (label (data n)))))"
  by (simp add: changedNode_def Let_def nextNumber_def add.commute split: Number.split)

text \<open>Beyond \<open>2 ^ 53\<close> the number read is rounded to a double, and from \<open>10 ^ 21\<close> on a
  number prints with an exponent.\<close>

lemma roundToDouble_examples:
  "roundToDouble 9007199254740993 = Some 9007199254740992"
  "roundToDouble 1000000000000000000000 = Some 1000000000000000000000"
  "roundToDouble 2000000000000000000000 = Some 2000000000000000000000"
  by (simp_all add: roundToDouble_def bitLength.simps Let_def)

lemma shortest_example: "shortest 1000000000000000000000 = 1000000000000000000000"
proof -
  have l: "length (natToString 1000000000000000000000) = 22"
    by (simp add: natToString.simps)
  have "candidate 1000000000000000000000 (Suc 0) = Some 1000000000000000000000"
    by (simp add: candidate_def Let_def l roundToDouble_examples)
  then show ?thesis by (simp add: shortest_def)
qed

lemma numbers_beyond_2_53:
  "parseInt ''9007199254740993'' = Num 9007199254740992"
  "numberToString (Num 9007199254740992) = ''9007199254740992''"
  "parseInt ''1000000000000000000000'' = Num 1000000000000000000000"
  "numberToString (Num 1000000000000000000000) = ''1e+21''"
proof -
  show "parseInt ''9007199254740993'' = Num 9007199254740992"
    by (simp add: parseInt_def hasHexPrefix_def isWhiteSpace_def radixDigit_def digitValue_def
        toNumber_def roundToDouble_examples)
  show "numberToString (Num 9007199254740992) = ''9007199254740992''"
    by (simp add: numberToString_def doubleToString_def natToString.simps)
  show "parseInt ''1000000000000000000000'' = Num 1000000000000000000000"
    by (simp add: parseInt_def hasHexPrefix_def isWhiteSpace_def radixDigit_def digitValue_def
        toNumber_def roundToDouble_examples)
  have l: "length (natToString 1000000000000000000000) = 22"
    by (simp add: natToString.simps)
  have e: "exponential 1000000000000000000000 = ''1e+21''"
    by (simp add: exponential_def Let_def natToString.simps)
  show "numberToString (Num 1000000000000000000000) = ''1e+21''"
    by (simp add: numberToString_def doubleToString_def shortest_example l e)
qed

lemma reshape_absent:
  assumes "nodeId \<notin> set (map node_id (nodes st))"
  shows "nodes (handleChangeNodeType nanoid nodeId newType st) = nodes st"
proof -
  have "map (\<lambda>n. if node_id n = nodeId then changedNode nanoid nodeId newType (nodes st) n else n)
      (nodes st) = map (\<lambda>n. n) (nodes st)"
    using assms by (intro map_cong refl) auto
  then show ?thesis by (simp add: handleChangeNodeType_def)
qed

text \<open>
  C7, as the code has it. The node that \<^verbatim>\<open>handleChangeNodeType\<close> returns for the named
  node keeps its identifier, position, colour and content, has the new shape as type
  and category and the default connection points of the new shape. For a shape of
  \<^verbatim>\<open>NodeCategoryType\<close> it is labelled with the capitalised shape, a space and a number:
  the number that \<^verbatim>\<open>parseInt\<close> reads at the start of the last space-separated word of
  the old label, printed as a double, which is the integer read in decimal notation
  when its magnitude is at most \<open>2 ^ 53\<close>; or, when \<^verbatim>\<open>parseInt\<close> reads none, one more
  than the number of other nodes of the new shape (at most \<open>2 ^ 53\<close>). So a label that
  ends in a space and a decimal numeral of at most \<open>2 ^ 53\<close> keeps that numeral, and a
  last word that is empty or starts with neither white space, nor a sign, nor a digit
  gives the next sequential number. For a non-empty identifier and shape the handler
  maps exactly the nodes with that identifier; it changes no node when no node has the
  identifier, and nothing at all for the empty identifier.
\<close>

theorem changeShape_relabels:
  "node_id (changedNode nanoid nodeId newType nds n) = node_id n
   \<and> node_position (changedNode nanoid nodeId newType nds n) = node_position n
   \<and> color (data (changedNode nanoid nodeId newType nds n)) = color (data n)
   \<and> content (data (changedNode nanoid nodeId newType nds n)) = content (data n)
   \<and> node_type (changedNode nanoid nodeId newType nds n) = newType
   \<and> nodeCategory (data (changedNode nanoid nodeId newType nds n)) = newType
   \<and> customHandles (data (changedNode nanoid nodeId newType nds n)) =
       getDefaultHandlesForShape nanoid newType (node_id n)
   \<and> (newType \<in> set AVAILABLE_SHAPES \<longrightarrow>
        parseInt (last (splitBy (CHR '' '') (label (data n)))) = NaN \<longrightarrow>
        nextNumber nodeId newType nds \<le> 2 ^ 53 \<longrightarrow>
        label (data (changedNode nanoid nodeId newType nds n)) =
          capitalize newType @ '' '' @ natToString (nextNumber nodeId newType nds))
   \<and> (newType \<in> set AVAILABLE_SHAPES \<longrightarrow>
        parseInt (last (splitBy (CHR '' '') (label (data n)))) = x \<longrightarrow> x \<noteq> NaN \<longrightarrow>
        label (data (changedNode nanoid nodeId newType nds n)) =
          capitalize newType @ '' '' @ numberToString x)
   \<and> (newType \<in> set AVAILABLE_SHAPES \<longrightarrow>
        parseInt (last (splitBy (CHR '' '') (label (data n)))) = Num j \<longrightarrow> \<bar>j\<bar> \<le> 2 ^ 53 \<longrightarrow>
        label (data (changedNode nanoid nodeId newType nds n)) =
          capitalize newType @ '' '' @ intToString j)
   \<and> (newType \<in> set AVAILABLE_SHAPES \<longrightarrow>
        label (data n) = pre @ '' '' @ natToString k \<longrightarrow> k \<le> 2 ^ 53 \<longrightarrow>
        label (data (changedNode nanoid nodeId newType nds n)) =
          capitalize newType @ '' '' @ natToString k)
   \<and> (w = [] \<or> \<not> (isWhiteSpace (hd w) \<or> hd w = CHR ''+'' \<or> hd w = CHR ''-'' \<or> isDigit (hd w)) \<longrightarrow>
        parseInt w = NaN)
   \<and> (nodeId \<noteq> [] \<longrightarrow> newType \<noteq> [] \<longrightarrow>
        nodes (handleChangeNodeType nanoid nodeId newType st) =
          map (\<lambda>n. if node_id n = nodeId
                    then changedNode nanoid nodeId newType (nodes st) n else n) (nodes st))
   \<and> (nodeId \<notin> set (map node_id (nodes st)) \<longrightarrow>
        nodes (handleChangeNodeType nanoid nodeId newType st) = nodes st)
   \<and> handleChangeNodeType nanoid [] newType st = st"
proof (intro conjI impI)
  assume "parseInt (last (splitBy (CHR '' '') (label (data n)))) = NaN"
    and "nextNumber nodeId newType nds \<le> 2 ^ 53"
  then show "label (data (changedNode nanoid nodeId newType nds n)) =
      capitalize newType @ '' '' @ natToString (nextNumber nodeId newType nds)"
    by (simp add: changedNode_label numberToString_nat)
next
  assume "parseInt (last (splitBy (CHR '' '') (label (data n)))) = x" and "x \<noteq> NaN"
  then show "label (data (changedNode nanoid nodeId newType nds n)) =
      capitalize newType @ '' '' @ numberToString x"
    by (simp add: changedNode_label)
next
  assume "parseInt (last (splitBy (CHR '' '') (label (data n)))) = Num j" and "\<bar>j\<bar> \<le> 2 ^ 53"
  then show "label (data (changedNode nanoid nodeId newType nds n)) =
      capitalize newType @ '' '' @ intToString j"
    by (simp add: changedNode_label numberToString_exact)
next
  assume "label (data n) = pre @ '' '' @ natToString k" and k: "k \<le> 2 ^ 53"
  then have "last (splitBy (CHR '' '') (label (data n))) = natToString k"
    using last_splitBy_suffix [where sep = "CHR '' ''" and w = "natToString k" and pre = pre]
      natToString_no_space [of k] by simp
  then show "label (data (changedNode nanoid nodeId newType nds n)) =
      capitalize newType @ '' '' @ natToString k"
    using k by (simp add: changedNode_label parseInt_natToString numberToString_nat)
next
  assume "w = [] \<or> \<not> (isWhiteSpace (hd w) \<or> hd w = CHR ''+'' \<or> hd w = CHR ''-'' \<or> isDigit (hd w))"
  then show "parseInt w = NaN" by (rule parseInt_NaN)
next
  assume "nodeId \<notin> set (map node_id (nodes st))"
  then show "nodes (handleChangeNodeType nanoid nodeId newType st) = nodes st"
    by (rule reshape_absent)
qed (simp_all add: changedNode_def handleChangeNodeType_def Let_def)

theorem changeShape_relabels_witness:
  "label (data (changedNode ''z'' ''a'' ''circle'' (nodes flowR3) (hd (nodes flowR3)))) = ''Circle 3''
   \<and> label (data (changedNode ''z'' ''a'' ''circle'' (nodes flowR3) (hd (nodes flowR3)))) =
       capitalize ''circle'' @ '' '' @ numberToString (Num 3)
   \<and> label (data (changedNode ''z'' ''a'' ''circle'' (nodes flowR3) (hd (nodes flowR3)))) =
       capitalize ''circle'' @ '' '' @ intToString 3
   \<and> label (data (changedNode ''z'' ''a'' ''circle'' (nodes flowPlan) (hd (nodes flowPlan)))) =
       capitalize ''circle'' @ '' '' @ natToString (nextNumber ''a'' ''circle'' (nodes flowPlan))
   \<and> node_type (changedNode ''z'' ''a'' ''circle'' (nodes flowR3) (hd (nodes flowR3))) = ''circle''
   \<and> nodeCategory (data (changedNode ''z'' ''a'' ''circle'' (nodes flowR3) (hd (nodes flowR3)))) = ''circle''
   \<and> customHandles (data (changedNode ''z'' ''a'' ''circle'' (nodes flowR3) (hd (nodes flowR3)))) =
       getDefaultHandlesForShape ''z'' ''circle'' (node_id (hd (nodes flowR3)))
   \<and> parseInt ''abc'' = NaN
   \<and> nodes (handleChangeNodeType ''z'' ''a'' ''circle'' flowR3) =
       map (\<lambda>n. if node_id n = ''a''
                 then changedNode ''z'' ''a'' ''circle'' (nodes flowR3) n else n) (nodes flowR3)
   \<and> nodes (handleChangeNodeType ''z'' ''ghost'' ''circle'' flowR3) = nodes flowR3"
proof -
  have a: "label (data (hd (nodes flowR3))) = ''Rectangle'' @ '' '' @ natToString 3"
    by (simp add: label_defs)
  have b: "''abc'' = [] \<or> \<not> (isWhiteSpace (hd ''abc'') \<or> hd ''abc'' = CHR ''+''
      \<or> hd ''abc'' = CHR ''-'' \<or> isDigit (hd ''abc''))"
    by (simp add: isWhiteSpace_def isDigit_def)
  have c: "''a'' \<noteq> []" "''circle'' \<noteq> []" by simp_all
  have d: "''ghost'' \<notin> set (map node_id (nodes flowR3))" by (simp add: label_defs)
  have e: "capitalize ''circle'' @ '' '' @ natToString 3 = ''Circle 3''"
    by (simp add: capitalize_def toUpperCase_def natToString.simps)
  have f: "(3::nat) \<le> 2 ^ 53" by simp
  have g: "''circle'' \<in> set AVAILABLE_SHAPES" by (simp add: AVAILABLE_SHAPES_def)
  have h: "parseInt (last (splitBy (CHR '' '') (label (data (hd (nodes flowR3)))))) = Num 3"
    by (simp add: label_defs)
  have i: "Num 3 \<noteq> NaN" "\<bar>3::int\<bar> \<le> 2 ^ 53" by simp_all
  have j: "parseInt (last (splitBy (CHR '' '') (label (data (hd (nodes flowPlan)))))) = NaN"
    by (simp add: label_defs)
  have k: "nextNumber ''a'' ''circle'' (nodes flowPlan) \<le> 2 ^ 53" by (simp add: label_defs)
  note t1 = changeShape_relabels [where nanoid = "''z''" and nodeId = "''a''"
      and newType = "''circle''" and nds = "nodes flowR3" and n = "hd (nodes flowR3)"
      and pre = "''Rectangle''" and k = 3 and w = "''abc''" and st = flowR3
      and x = "Num 3" and j = 3]
  note t2 = changeShape_relabels [where nanoid = "''z''" and nodeId = "''ghost''"
      and newType = "''circle''" and nds = "nodes flowR3" and n = "hd (nodes flowR3)"
      and pre = "''Rectangle''" and k = 3 and w = "''abc''" and st = flowR3
      and x = "Num 3" and j = 3]
  note t3 = changeShape_relabels [where nanoid = "''z''" and nodeId = "''a''"
      and newType = "''circle''" and nds = "nodes flowPlan" and n = "hd (nodes flowPlan)"
      and pre = "''Rectangle''" and k = 3 and w = "''abc''" and st = flowPlan
      and x = "Num 3" and j = 3]
  show ?thesis
    using t1 t2 t3 a b c d f g h i j k unfolding e [symmetric] by blast
qed

text \<open>C7, as the claim states it, fails: the label \<open>Draft 2b\<close> does not end in a numeric
  suffix, yet the circle is labelled \<open>Circle 2\<close>, not with the next sequential number,
  which is 1.\<close>

theorem label_not_numeric_counterexample:
  "map (\<lambda>n. label (data n)) (nodes flowDraft) = [''Draft 2b'']
   \<and> \<not> endsInNumericSuffix ''Draft 2b''
   \<and> map (\<lambda>n. label (data n)) (nodes (handleChangeNodeType ''z'' ''a'' ''circle'' flowDraft)) =
       [''Circle 2'']
   \<and> nextNumber ''a'' ''circle'' (nodes flowDraft) = 1"
  by (simp add: label_defs)


end
